theory Spec2Isabelle
  imports Complex_Main "HOL-Library.Multiset"
begin

section \<open>Strings and numbers of the host language\<close>

text \<open>
  A JavaScript string is a sequence of UTF-16 code units; a code unit is modelled as a
  natural number, so that the non-ASCII symbols of the content guard can be written down.
  ASCII literals are embedded with \<open>str\<close>.
\<close>

type_synonym jsstring = "nat list"

definition str :: "string \<Rightarrow> jsstring" where
  "str s = map of_char s"

text \<open>
  \<open>String.prototype.toLowerCase\<close> belongs to the runtime, and the Unicode case tables
  it works from are not part of the repository. Every function of the repository that
  calls it takes it as its first argument, named \<open>toLowerCase\<close>: a function from
  strings to strings (it is not a map over code units: lower-casing U+0130 gives two
  code units).
\<close>

type_synonym lowerCase = "jsstring \<Rightarrow> jsstring"

text \<open>
  What lower-casing does on ASCII text: the letters \<open>A\<close> to \<open>Z\<close> move to \<open>a\<close> to
  \<open>z\<close> and nothing else changes. It is the value of \<open>toLowerCase\<close> in the concrete
  runs below that are on ASCII text.
\<close>

definition lowerUnit :: "nat \<Rightarrow> nat" where
  "lowerUnit c = (if 65 \<le> c \<and> c \<le> 90 then c + 32 else c)"

definition asciiLowerCase :: lowerCase where
  "asciiLowerCase s = map lowerUnit s"

text \<open>\<open>String.prototype.includes\<close>: the keyword occurs as a contiguous substring.\<close>

fun startsWith :: "jsstring \<Rightarrow> jsstring \<Rightarrow> bool" where
  "startsWith s [] = True"
| "startsWith [] (k # ks) = False"
| "startsWith (c # cs) (k # ks) = (c = k \<and> startsWith cs ks)"

fun includes_str :: "jsstring \<Rightarrow> jsstring \<Rightarrow> bool" where
  "includes_str [] k = (k = [])"
| "includes_str (c # cs) k = (startsWith (c # cs) k \<or> includes_str cs k)"

text \<open>
  \<open>text.split(' ')\<close>: the string is cut at every space (code unit 32). The result is
  never empty: the empty string gives one empty token, and two adjacent spaces give an
  empty token between them.
\<close>

fun split_space :: "jsstring \<Rightarrow> jsstring list" where
  "split_space [] = [[]]"
| "split_space (c # cs) =
     (if c = 32 then [] # split_space cs
      else (case split_space cs of
              [] \<Rightarrow> [[c]]
            | w # ws \<Rightarrow> (c # w) # ws))"

text \<open>
  A JavaScript number that results from a division: a finite value, an infinity or NaN.
  Finite values are modelled as reals (rounding of doubles is not modelled).
\<close>

datatype jsnum = Finite real | PosInfinity | NegInfinity | NaN

definition js_div :: "real \<Rightarrow> real \<Rightarrow> jsnum" where
  "js_div x y =
     (if y = 0 then (if x = 0 then NaN else if 0 < x then PosInfinity else NegInfinity)
      else Finite (x / y))"

fun js_sub :: "jsnum \<Rightarrow> jsnum \<Rightarrow> jsnum" where
  "js_sub (Finite x) (Finite y) = Finite (x - y)"
| "js_sub NaN _ = NaN"
| "js_sub _ NaN = NaN"
| "js_sub PosInfinity PosInfinity = NaN"
| "js_sub NegInfinity NegInfinity = NaN"
| "js_sub PosInfinity _ = PosInfinity"
| "js_sub NegInfinity _ = NegInfinity"
| "js_sub (Finite x) PosInfinity = NegInfinity"
| "js_sub (Finite x) NegInfinity = PosInfinity"

text \<open>\<open>a > t\<close> for a finite literal \<open>t\<close>; a comparison with NaN is false.\<close>

fun js_gt :: "jsnum \<Rightarrow> real \<Rightarrow> bool" where
  "js_gt (Finite x) t = (t < x)"
| "js_gt PosInfinity t = True"
| "js_gt NegInfinity t = False"
| "js_gt NaN t = False"



section \<open>The mock vector database (server/services/vectorDB.ts)\<close>

record step =
  stepNo :: nat
  stepTitle :: jsstring
  stepContent :: jsstring
  stepExplanation :: jsstring

record sourceRef =
  sourceTitle :: jsstring
  sourceUrl :: jsstring

text \<open>
  A solution object: the seed solutions have \<open>steps\<close> and \<open>finalAnswer\<close>; the solution
  synthesised from web search results has a \<open>sources\<close> field as well.
\<close>

record solution =
  steps :: "step list"
  finalAnswer :: jsstring
  sources :: "sourceRef list option"

record entry =
  entryProblem :: jsstring
  entrySolution :: solution
  entryCategory :: jsstring
  embedding :: "real list"

record VectorSearchResult =
  problem :: jsstring
  solution :: solution
  similarity :: jsnum
  category :: jsstring
  source :: jsstring

record MockVectorDB =
  problems :: "entry list"

subsection \<open>simpleHash\<close>

text \<open>
  \<open>hash = ((hash << 5) - hash) + char; hash = hash & hash\<close>: the shift and the
  bitwise and both convert to a signed 32-bit integer; the subtraction and the addition
  in between are exact.
\<close>

definition toInt32 :: "int \<Rightarrow> int" where
  "toInt32 x = (x + 2147483648) mod 4294967296 - 2147483648"

definition hashStep :: "int \<Rightarrow> nat \<Rightarrow> int" where
  "hashStep hash char = toInt32 ((toInt32 (toInt32 hash * 32) - hash) + int char)"

definition simpleHash :: "jsstring \<Rightarrow> int" where
  "simpleHash s = \<bar>foldl hashStep 0 s\<bar>"

subsection \<open>generateMockEmbedding\<close>

text \<open>
  For every word (with its index) and every dimension \<open>i < 384\<close>:
  \<open>embedding[i] += Math.sin(hash + i + index) * 0.1\<close>, starting from 384 zeros.
\<close>

definition addWord :: "real list \<Rightarrow> nat \<times> jsstring \<Rightarrow> real list" where
  "addWord emb iw =
     (let hash = simpleHash (snd iw)
      in map (\<lambda>(i, e). e + sin (of_int (hash + int i + int (fst iw))) * (1 / 10))
             (zip [0 ..< length emb] emb))"

definition generateMockEmbedding :: "lowerCase \<Rightarrow> jsstring \<Rightarrow> real list" where
  "generateMockEmbedding toLowerCase text =
     (let words = split_space (toLowerCase text)
      in foldl addWord (replicate 384 0) (zip [0 ..< length words] words))"

subsection \<open>calculateSimilarity\<close>

text \<open>
  The loop runs over the indices of the first vector. Reading the second vector past
  its end gives \<open>undefined\<close>, which turns every accumulator that uses it, and so the
  result, into NaN. The final division has no guard for a zero denominator.
\<close>

definition accumulate :: "real list \<Rightarrow> real list \<Rightarrow> real \<times> real \<times> real" where
  "accumulate embedding1 embedding2 =
     foldl (\<lambda>(dotProduct, norm1, norm2) i.
              (dotProduct + embedding1 ! i * embedding2 ! i,
               norm1 + embedding1 ! i * embedding1 ! i,
               norm2 + embedding2 ! i * embedding2 ! i))
           (0, 0, 0) [0 ..< length embedding1]"

definition calculateSimilarity :: "real list \<Rightarrow> real list \<Rightarrow> jsnum" where
  "calculateSimilarity embedding1 embedding2 =
     (if length embedding2 < length embedding1 then NaN
      else (case accumulate embedding1 embedding2 of
              (dotProduct, norm1, norm2) \<Rightarrow> js_div dotProduct (sqrt norm1 * sqrt norm2)))"

subsection \<open>searchSimilarProblems\<close>

text \<open>
  The local \<open>results\<close>: one scored result per stored problem, in the order of the store.
  \<open>Array.prototype.map\<close> builds a new array, so the later in-place sort does not touch
  \<open>this.problems\<close>.
\<close>

definition scoreProblem :: "real list \<Rightarrow> entry \<Rightarrow> VectorSearchResult" where
  "scoreProblem queryEmbedding p =
     \<lparr>problem = entryProblem p,
      solution = entrySolution p,
      similarity = calculateSimilarity queryEmbedding (embedding p),
      category = entryCategory p,
      source = str ''knowledge_base''\<rparr>"

definition results ::
  "lowerCase \<Rightarrow> MockVectorDB \<Rightarrow> jsstring \<Rightarrow> VectorSearchResult list" where
  "results toLowerCase db query =
     (let queryEmbedding = generateMockEmbedding toLowerCase query
      in map (scoreProblem queryEmbedding) (problems db))"

text \<open>The comparator \<open>(a, b) => b.similarity - a.similarity\<close>.\<close>

definition compareFn :: "VectorSearchResult \<Rightarrow> VectorSearchResult \<Rightarrow> jsnum" where
  "compareFn a b = js_sub (similarity b) (similarity a)"

text \<open>
  \<open>Array.prototype.sort\<close> with a comparator: \<open>a\<close> goes after \<open>b\<close> exactly when the
  comparator's value is greater than zero; zero and NaN both count as "equal". The sort
  is stable (ECMAScript 2019), so for a consistent comparator its result is the one that
  the insertion sort below computes. With NaN among the scores the comparator is not
  consistent and the language leaves the order to the implementation: the theorems on
  the order therefore assume finite scores.
\<close>

fun positive :: "jsnum \<Rightarrow> bool" where
  "positive (Finite x) = (0 < x)"
| "positive PosInfinity = True"
| "positive _ = False"

fun insert_sorted :: "('a \<Rightarrow> 'a \<Rightarrow> jsnum) \<Rightarrow> 'a \<Rightarrow> 'a list \<Rightarrow> 'a list" where
  "insert_sorted cmp x [] = [x]"
| "insert_sorted cmp x (y # ys) =
     (if positive (cmp x y) then y # insert_sorted cmp x ys else x # y # ys)"

definition sort_js :: "('a \<Rightarrow> 'a \<Rightarrow> jsnum) \<Rightarrow> 'a list \<Rightarrow> 'a list" where
  "sort_js cmp xs = foldr (insert_sorted cmp) xs []"


text \<open>
  \<open>xs.slice(0, limit)\<close> for an integer \<open>limit\<close>: a negative end counts from the end of
  the array, and the end is clamped to the array.
\<close>

definition slice0 :: "'a list \<Rightarrow> int \<Rightarrow> 'a list" where
  "slice0 xs limit =
     (let len = int (length xs);
          final = (if limit < 0 then max (len + limit) 0 else min limit len)
      in take (nat final) xs)"

definition searchSimilarProblems ::
  "lowerCase \<Rightarrow> MockVectorDB \<Rightarrow> jsstring \<Rightarrow> int
     \<Rightarrow> VectorSearchResult list \<times> MockVectorDB" where
  "searchSimilarProblems toLowerCase db query limit =
     (slice0 (sort_js compareFn (results toLowerCase db query)) limit, db)"

text \<open>The default argument \<open>limit = 5\<close> of a call that leaves the limit out.\<close>

definition searchSimilarProblems_default ::
  "lowerCase \<Rightarrow> MockVectorDB \<Rightarrow> jsstring \<Rightarrow> VectorSearchResult list \<times> MockVectorDB" where
  "searchSimilarProblems_default toLowerCase db query =
     searchSimilarProblems toLowerCase db query 5"

subsection \<open>addProblem\<close>

definition addProblem ::
  "lowerCase \<Rightarrow> MockVectorDB \<Rightarrow> jsstring \<Rightarrow> solution \<Rightarrow> jsstring
     \<Rightarrow> MockVectorDB" where
  "addProblem toLowerCase db p sol cat =
     db\<lparr>problems := problems db @
          [\<lparr>entryProblem = toLowerCase p,
            entrySolution = sol,
            entryCategory = cat,
            embedding = generateMockEmbedding toLowerCase p\<rparr>]\<rparr>"

subsection \<open>The seed data of the constructor\<close>

definition mkStep :: "nat \<Rightarrow> jsstring \<Rightarrow> jsstring \<Rightarrow> jsstring \<Rightarrow> step" where
  "mkStep n t c e = \<lparr>stepNo = n, stepTitle = t, stepContent = c, stepExplanation = e\<rparr>"

definition sampleQuadratic :: "lowerCase \<Rightarrow> entry" where
  "sampleQuadratic toLowerCase =
     \<lparr>entryProblem = str ''solve quadratic equation x'' @ [178] @ str '' + 5x + 6 = 0'',
      entrySolution =
        \<lparr>steps =
           [mkStep 1 (str ''Factor the quadratic expression'')
              (str ''x'' @ [178] @ str '' + 5x + 6 = (x + 2)(x + 3)'')
              (str ''Find two numbers that multiply to 6 and add to 5: 2 and 3''),
            mkStep 2 (str ''Set each factor equal to zero'')
              (str ''x + 2 = 0  or  x + 3 = 0'')
              (str ''Use the zero product property''),
            mkStep 3 (str ''Solve for x'')
              (str ''x = -2  or  x = -3'')
              (str ''These are the roots of the quadratic equation'')],
         finalAnswer = str ''x = -2 or x = -3'',
         sources = None\<rparr>,
      entryCategory = str ''algebra'',
      embedding = generateMockEmbedding toLowerCase (str ''quadratic equation solve'')\<rparr>"

definition sampleDerivative :: "lowerCase \<Rightarrow> entry" where
  "sampleDerivative toLowerCase =
     \<lparr>entryProblem = str ''find derivative of f(x) = 3x'' @ [179] @ str '' + 2x'' @ [178]
                       @ str '' - 5x + 1'',
      entrySolution =
        \<lparr>steps =
           [mkStep 1 (str ''Identify the function and apply the power rule'')
              (str ''f(x) = 3x'' @ [179] @ str '' + 2x'' @ [178] @ str '' - 5x + 1'')
              (str ''We'' @ [39] @ str ''ll differentiate each term separately using the power rule: d/dx[x''
                 @ [8319] @ str ''] = n'' @ [183] @ str ''x'' @ [8319, 8315, 185]),
            mkStep 2 (str ''Differentiate each term'')
              (str ''d/dx[3x'' @ [179] @ str ''] = 9x'' @ [178, 10] @ str ''d/dx[2x'' @ [178]
                 @ str ''] = 4x'' @ [10] @ str ''d/dx[-5x] = -5'' @ [10] @ str ''d/dx[1] = 0'')
              (str ''Apply the power rule to each term''),
            mkStep 3 (str ''Combine the results'')
              (str ''f'' @ [39] @ str ''(x) = 9x'' @ [178] @ str '' + 4x - 5'')
              (str ''Sum all the derivatives'')],
         finalAnswer = str ''f'' @ [39] @ str ''(x) = 9x'' @ [178] @ str '' + 4x - 5'',
         sources = None\<rparr>,
      entryCategory = str ''calculus'',
      embedding = generateMockEmbedding toLowerCase (str ''derivative calculus power rule'')\<rparr>"

definition sampleTriangle :: "lowerCase \<Rightarrow> entry" where
  "sampleTriangle toLowerCase =
     \<lparr>entryProblem = str ''calculate area of triangle with sides 3, 4, 5'',
      entrySolution =
        \<lparr>steps =
           [mkStep 1 (str ''Identify triangle type'')
              (str ''3'' @ [178] @ str '' + 4'' @ [178] @ str '' = 9 + 16 = 25 = 5'' @ [178])
              (str ''This is a right triangle (Pythagorean theorem satisfied)''),
            mkStep 2 (str ''Apply area formula'')
              (str ''Area = '' @ [189, 32, 215] @ str '' base '' @ [215] @ str '' height = ''
                 @ [189, 32, 215] @ str '' 3 '' @ [215] @ str '' 4 = 6'')
              (str ''For a right triangle, use the two perpendicular sides as base and height'')],
         finalAnswer = str ''Area = 6 square units'',
         sources = None\<rparr>,
      entryCategory = str ''geometry'',
      embedding = generateMockEmbedding toLowerCase (str ''triangle area geometry'')\<rparr>"

definition initializeSampleData :: "lowerCase \<Rightarrow> MockVectorDB" where
  "initializeSampleData toLowerCase =
     \<lparr>problems = [sampleQuadratic toLowerCase, sampleDerivative toLowerCase,
                  sampleTriangle toLowerCase]\<rparr>"

section \<open>The content guard (services/guardrails.ts)\<close>

definition mathKeywords :: "jsstring list" where
  "mathKeywords = map str
     [''equation'', ''derivative'', ''integral'', ''function'', ''solve'', ''calculate'', ''find'',
      ''algebra'', ''calculus'', ''geometry'', ''trigonometry'', ''statistics'', ''probability'',
      ''matrix'', ''vector'', ''polynomial'', ''logarithm'', ''exponential'', ''limit'',
      ''theorem'', ''proof'', ''formula'', ''graph'', ''plot'', ''coordinate'', ''angle'',
      ''triangle'', ''circle'', ''square'', ''rectangle'', ''area'', ''volume'', ''perimeter'']"

definition nonMathKeywords :: "jsstring list" where
  "nonMathKeywords = map str
     [''politics'', ''religion'', ''personal'', ''medical'', ''legal'', ''financial advice'',
      ''inappropriate'', ''offensive'', ''violent'', ''sexual'', ''drugs'', ''weapons'']"

text \<open>
  The character class of the regular expression \<open>mathSymbols\<close>: the ASCII operators
  \<open>+ - * / = < >\<close> and nineteen mathematical symbols, by code unit.
\<close>

definition mathSymbols :: "nat list" where
  "mathSymbols =
     [43, 45, 42, 47, 61, 60, 62,
      8747, 8721, 8719, 8730, 8734, 960, 8706, 8711, 177, 215, 247,
      8804, 8805, 8800, 8776, 8712, 8709, 8746, 8745]"

definition isDigit :: "nat \<Rightarrow> bool" where
  "isDigit c = (48 \<le> c \<and> c \<le> 57)"

definition isLetter :: "nat \<Rightarrow> bool" where
  "isLetter c = ((65 \<le> c \<and> c \<le> 90) \<or> (97 \<le> c \<and> c \<le> 122))"

text \<open>The word characters of \<open>\b\<close>: letters, digits and the underscore.\<close>

definition isWordChar :: "nat \<Rightarrow> bool" where
  "isWordChar c = (isLetter c \<or> isDigit c \<or> c = 95)"

text \<open>
  \<open>/\b[a-z]\b/i\<close>: some ASCII letter has no word character directly before it and none
  directly after it. The first argument says whether the previous code unit was a word
  character.
\<close>

fun matchVariable :: "bool \<Rightarrow> jsstring \<Rightarrow> bool" where
  "matchVariable prevWord [] = False"
| "matchVariable prevWord (c # cs) =
     ((\<not> prevWord \<and> isLetter c \<and> (case cs of [] \<Rightarrow> True | d # _ \<Rightarrow> \<not> isWordChar d))
      \<or> matchVariable (isWordChar c) cs)"

record validation =
  isValid :: bool
  reason :: "jsstring option"

definition reasonInappropriate :: jsstring where
  "reasonInappropriate =
     str ''Content appears to be non-educational or inappropriate. Please enter a mathematical problem.''"

definition reasonNotMath :: jsstring where
  "reasonNotMath =
     str ''This doesn'' @ [39] @ str ''t appear to be a mathematical problem. Please enter a question related to mathematics, such as equations, calculus, geometry, or algebra.''"

definition hasNonMathContent :: "lowerCase \<Rightarrow> jsstring \<Rightarrow> bool" where
  "hasNonMathContent toLowerCase input =
     list_ex (\<lambda>keyword. includes_str (toLowerCase input) keyword) nonMathKeywords"

definition hasMathContent :: "lowerCase \<Rightarrow> jsstring \<Rightarrow> bool" where
  "hasMathContent toLowerCase input =
     list_ex (\<lambda>keyword. includes_str (toLowerCase input) keyword) mathKeywords"

definition hasSymbols :: "jsstring \<Rightarrow> bool" where
  "hasSymbols input = list_ex (\<lambda>c. c \<in> set mathSymbols) input"

definition hasNumbers :: "jsstring \<Rightarrow> bool" where
  "hasNumbers input = list_ex isDigit input"

definition hasVariables :: "jsstring \<Rightarrow> bool" where
  "hasVariables input = matchVariable False input"

definition validateMathematicalContent :: "lowerCase \<Rightarrow> jsstring \<Rightarrow> validation" where
  "validateMathematicalContent toLowerCase input =
     (if hasNonMathContent toLowerCase input
      then \<lparr>isValid = False, reason = Some reasonInappropriate\<rparr>
      else if hasMathContent toLowerCase input \<or> hasSymbols input
              \<or> (hasNumbers input \<and> hasVariables input)
      then \<lparr>isValid = True, reason = None\<rparr>
      else \<lparr>isValid = False, reason = Some reasonNotMath\<rparr>)"

section \<open>The mock web search (services/webSearch.ts)\<close>

record WebSearchResult =
  resultTitle :: jsstring
  resultContent :: jsstring
  resultUrl :: jsstring
  relevance :: real

definition mockResults :: "WebSearchResult list" where
  "mockResults =
     [\<lparr>resultTitle = str ''Advanced Topology Optimization Techniques'',
       resultContent = str ''Topology optimization is a mathematical method that optimizes material layout within a given design space...'',
       resultUrl = str ''https://example.com/topology-optimization'',
       relevance = 95 / 100\<rparr>,
      \<lparr>resultTitle = str ''Quantum Mathematics in Cryptography Applications'',
       resultContent = str ''Quantum mathematics provides the foundation for quantum cryptography through principles of quantum mechanics...'',
       resultUrl = str ''https://example.com/quantum-crypto'',
       relevance = 88 / 100\<rparr>]"

text \<open>The body of the try block only builds and returns the constant array.\<close>

definition searchMathematicalContent :: "jsstring \<Rightarrow> WebSearchResult list" where
  "searchMathematicalContent query = mockResults"

definition generateSolutionFromSearch :: "jsstring \<Rightarrow> WebSearchResult list \<Rightarrow> solution" where
  "generateSolutionFromSearch query searchResults =
     (case searchResults of
        [] \<Rightarrow>
          \<lparr>steps =
             [mkStep 1 (str ''Search completed'')
                (str ''No specific mathematical problem solution found'')
                (str ''This appears to be an advanced topic that requires specialized knowledge'')],
           finalAnswer = str ''Please provide more specific mathematical details for a step-by-step solution'',
           sources = Some []\<rparr>
      | first # _ \<Rightarrow>
          \<lparr>steps =
             [mkStep 1 (str ''Research Summary'')
                (take 200 (resultContent first) @ str ''...'')
                (str ''Based on current research and mathematical literature''),
              mkStep 2 (str ''Key Concepts'')
                (str ''This topic involves advanced mathematical concepts that are actively researched'')
                (str ''The solution requires understanding of specialized mathematical frameworks'')],
           finalAnswer = str ''This is an advanced mathematical topic. For detailed solutions, please consult specialized mathematical literature.'',
           sources = Some (map (\<lambda>result. \<lparr>sourceTitle = resultTitle result,
                                               sourceUrl = resultUrl result\<rparr>) searchResults)\<rparr>)"

section \<open>The in-memory storage (server/storage.ts)\<close>

type_synonym uuid = jsstring
type_synonym time = nat

record InsertMathProblem =
  mpProblem :: jsstring
  mpSolution :: solution
  mpCategory :: jsstring
  difficulty :: jsstring
  mpSource :: jsstring

record MathProblem = InsertMathProblem +
  mpId :: uuid
  mpCreatedAt :: time

record InsertActivity =
  action :: jsstring
  activitySource :: jsstring
  details :: "jsstring option"

record SystemActivity = InsertActivity +
  activityId :: uuid
  activityCreatedAt :: time

text \<open>
  A JavaScript \<open>Map\<close> keeps its keys in insertion order; \<open>set\<close> overwrites the value of
  a key that is present and appends a new key otherwise.
\<close>

fun map_set :: "'k \<Rightarrow> 'v \<Rightarrow> ('k \<times> 'v) list \<Rightarrow> ('k \<times> 'v) list" where
  "map_set k v [] = [(k, v)]"
| "map_set k v ((k', v') # m) = (if k = k' then (k, v) # m else (k', v') # map_set k v m)"

record MemStorage =
  mathProblems :: "(uuid \<times> MathProblem) list"
  systemActivities :: "(uuid \<times> SystemActivity) list"

text \<open>
  \<open>randomUUID()\<close> and \<open>new Date()\<close> are inputs from the environment: each operation
  takes the identifier and the time it draws as arguments.
\<close>

definition createMathProblem ::
  "uuid \<Rightarrow> time \<Rightarrow> InsertMathProblem \<Rightarrow> MemStorage \<Rightarrow> MathProblem \<times> MemStorage" where
  "createMathProblem newId now insertProblem st =
     (let problem = \<lparr>mpProblem = mpProblem insertProblem,
                      mpSolution = mpSolution insertProblem,
                      mpCategory = mpCategory insertProblem,
                      difficulty = difficulty insertProblem,
                      mpSource = mpSource insertProblem,
                      mpId = newId,
                      mpCreatedAt = now\<rparr>
      in (problem, st\<lparr>mathProblems := map_set newId problem (mathProblems st)\<rparr>))"

text \<open>\<open>details: insertActivity.details || null\<close>: an empty string is falsy.\<close>

definition createActivity ::
  "uuid \<Rightarrow> time \<Rightarrow> InsertActivity \<Rightarrow> MemStorage \<Rightarrow> SystemActivity \<times> MemStorage" where
  "createActivity newId now insertActivity st =
     (let activity = \<lparr>action = action insertActivity,
                       activitySource = activitySource insertActivity,
                       details = (case details insertActivity of
                                    None \<Rightarrow> None
                                  | Some d \<Rightarrow> if d = [] then None else Some d),
                       activityId = newId,
                       activityCreatedAt = now\<rparr>
      in (activity, st\<lparr>systemActivities := map_set newId activity (systemActivities st)\<rparr>))"

section \<open>The routing agent (services/mathAgent.ts, the version with guard and routing)\<close>

record MathSolutionRequest =
  reqProblem :: jsstring
  showSteps :: bool
  includeExplanations :: bool

datatype sourceTag = knowledge_base | web_search

record MathSolutionResponse =
  respProblem :: jsstring
  respSolution :: solution
  respSource :: sourceTag
  responseTime :: int
  respCategory :: "jsstring option"
  problemId :: uuid

text \<open>A thrown \<open>Error\<close> with its message.\<close>

datatype error = Error jsstring

text \<open>
  The environment of one request: the \<open>k\<close>-th identifier that \<open>randomUUID()\<close> returns
  and the \<open>k\<close>-th reading of the clock (\<open>Date.now()\<close>, \<open>new Date()\<close>), counted from 0.
\<close>

record env =
  randomUUID :: "nat \<Rightarrow> uuid"
  clock :: "nat \<Rightarrow> time"

text \<open>Decimal digits of a natural number, as \<open>String(n)\<close> prints them.\<close>

fun decimal :: "nat \<Rightarrow> jsstring" where
  "decimal n = (if n < 10 then [48 + n] else decimal (n div 10) @ [48 + n mod 10])"

text \<open>
  \<open>x.toFixed(2)\<close>: the sign, then the integer nearest to \<open>100 * |x|\<close> (the larger one of
  two) with a point before its last two digits. Written for \<open>|x| < 10^21\<close>, which
  covers every value that \<open>calculateSimilarity\<close> can return.
\<close>

fun toFixed2 :: "jsnum \<Rightarrow> jsstring" where
  "toFixed2 (Finite x) =
     (let n = nat \<lfloor>\<bar>x\<bar> * 100 + 1 / 2\<rfloor>
      in (if x < 0 then str ''-'' else []) @ decimal (n div 100) @ str ''.''
         @ [48 + (n mod 100) div 10, 48 + n mod 10])"
| "toFixed2 PosInfinity = str ''Infinity''"
| "toFixed2 NegInfinity = str ''-Infinity''"
| "toFixed2 NaN = str ''NaN''"

definition similarityThreshold :: real where
  "similarityThreshold = 7 / 10"

text \<open>
  When the guard rejects, the function throws before anything else happens. Nothing in
  the body of the try block can throw (the vector database, the mock web search and the
  in-memory storage have no failing path), so the catch clause is never entered and has
  no counterpart here. The result is the thrown error or the response, together with
  the state of the vector database and of the storage after the call.
\<close>

definition knowledgeBaseAnswer ::
  "env \<Rightarrow> MathSolutionRequest \<Rightarrow> VectorSearchResult \<Rightarrow> MemStorage
     \<Rightarrow> MathSolutionResponse \<times> MemStorage" where
  "knowledgeBaseAnswer e request bestMatch st =
     (let (problemRecord, st1) =
            createMathProblem (randomUUID e 1) (clock e 2)
              \<lparr>mpProblem = reqProblem request,
               mpSolution = solution bestMatch,
               mpCategory = category bestMatch,
               difficulty = str ''intermediate'',
               mpSource = str ''knowledge_base''\<rparr> st;
          (activity, st2) =
            createActivity (randomUUID e 2) (clock e 3)
              \<lparr>action = str ''Solution found'',
               activitySource = str ''knowledge_base'',
               details = Some (str ''Similarity: '' @ toFixed2 (similarity bestMatch))\<rparr> st1
      in (\<lparr>respProblem = reqProblem request,
           respSolution = solution bestMatch,
           respSource = knowledge_base,
           responseTime = int (clock e 4) - int (clock e 0),
           respCategory = Some (category bestMatch),
           problemId = mpId problemRecord\<rparr>, st2))"

definition webSearchAnswer ::
  "env \<Rightarrow> MathSolutionRequest \<Rightarrow> MemStorage \<Rightarrow> MathSolutionResponse \<times> MemStorage" where
  "webSearchAnswer e request st =
     (let searchResults = searchMathematicalContent (reqProblem request);
          webSolution = generateSolutionFromSearch (reqProblem request) searchResults;
          (problemRecord, st1) =
            createMathProblem (randomUUID e 1) (clock e 2)
              \<lparr>mpProblem = reqProblem request,
               mpSolution = webSolution,
               mpCategory = str ''advanced'',
               difficulty = str ''advanced'',
               mpSource = str ''web_search''\<rparr> st;
          (activity, st2) =
            createActivity (randomUUID e 2) (clock e 3)
              \<lparr>action = str ''Solution found'',
               activitySource = str ''web_search'',
               details = Some (str ''Sources: '' @ decimal (length searchResults) @ str '' found'')\<rparr> st1
      in (\<lparr>respProblem = reqProblem request,
           respSolution = webSolution,
           respSource = web_search,
           responseTime = int (clock e 4) - int (clock e 0),
           respCategory = Some (str ''advanced''),
           problemId = mpId problemRecord\<rparr>, st2))"

definition solveProblem ::
  "lowerCase \<Rightarrow> env \<Rightarrow> MathSolutionRequest \<Rightarrow> MockVectorDB \<times> MemStorage
     \<Rightarrow> (error + MathSolutionResponse) \<times> MockVectorDB \<times> MemStorage" where
  "solveProblem toLowerCase e request state =
     (let (db, st) = state;
          validation = validateMathematicalContent toLowerCase (reqProblem request)
      in if \<not> isValid validation
         then (Inl (Error (case reason validation of
                             None \<Rightarrow> str ''Invalid mathematical content''
                           | Some r \<Rightarrow> if r = [] then str ''Invalid mathematical content'' else r)),
               db, st)
         else
           (let (submitted, st0) =
                  createActivity (randomUUID e 0) (clock e 1)
                    \<lparr>action = str ''Problem submitted'',
                     activitySource = str ''user_input'',
                     details = Some (take 100 (reqProblem request))\<rparr> st;
                (similarProblems, db1) =
                  searchSimilarProblems toLowerCase db (reqProblem request) 3
            in if similarProblems \<noteq> []
                  \<and> js_gt (similarity (hd similarProblems)) similarityThreshold
               then (let bestMatch = hd similarProblems;
                         (response, st2) = knowledgeBaseAnswer e request bestMatch st0
                     in (Inr response, db1, st2))
               else (let (response, st2) = webSearchAnswer e request st0
                     in (Inr response, db1, st2))))"

section \<open>The second version of the agent (services/mathAgent.ts with the Python solver)\<close>

text \<open>
  The repository holds a second version of \<open>MathRoutingAgent\<close>. It calls neither the
  guard nor the vector database: it logs the submission, runs a Python solver as a child
  process and reports the constant source \<open>'knowledge_base'\<close> ("Show as knowledge base
  for UI consistency"). The Python solver (backend/services/math_solver.py) is not among
  the sources: what the process and the parsing of its output yield for a problem text
  is the parameter \<open>python\<close>.
\<close>

definition categorizeProblems :: "lowerCase \<Rightarrow> jsstring \<Rightarrow> jsstring" where
  "categorizeProblems toLowerCase p =
     (let problemLower = toLowerCase p
      in if includes_str problemLower (str ''derivative'')
            \<or> includes_str problemLower (str ''differentiate'')
            \<or> includes_str problemLower (str ''integrate'')
         then str ''calculus''
         else if includes_str problemLower (str ''solve'')
            \<or> includes_str problemLower (str ''equation'')
            \<or> includes_str problemLower (str ''x'')
         then str ''algebra''
         else if includes_str problemLower (str ''area'')
            \<or> includes_str problemLower (str ''volume'')
            \<or> includes_str problemLower (str ''triangle'')
         then str ''geometry''
         else if includes_str problemLower (str ''sin'')
            \<or> includes_str problemLower (str ''cos'')
            \<or> includes_str problemLower (str ''tan'')
         then str ''trigonometry''
         else str ''general'')"

text \<open>
  The handler of the \<open>close\<close> event: without \<open>showSteps\<close> the steps are dropped,
  without \<open>includeExplanations\<close> every explanation is blanked.
\<close>

definition callPythonSolver ::
  "(jsstring \<Rightarrow> error + solution) \<Rightarrow> jsstring \<Rightarrow> bool \<Rightarrow> bool \<Rightarrow> error + solution" where
  "callPythonSolver python p withSteps withExplanations =
     (case python p of
        Inl err \<Rightarrow> Inl err
      | Inr result \<Rightarrow>
          (let r1 = (if \<not> withSteps then result\<lparr>steps := []\<rparr> else result);
               r2 = (if \<not> withExplanations
                     then r1\<lparr>steps := map (\<lambda>s. s\<lparr>stepExplanation := []\<rparr>) (steps r1)\<rparr>
                     else r1)
           in Inr r2))"

text \<open>Here a failure of the solver is caught: it is logged and replaced by a fixed message.\<close>

definition solveProblem_solver ::
  "lowerCase \<Rightarrow> (jsstring \<Rightarrow> error + solution) \<Rightarrow> env \<Rightarrow> MathSolutionRequest
     \<Rightarrow> MemStorage
     \<Rightarrow> (error + MathSolutionResponse) \<times> MemStorage" where
  "solveProblem_solver toLowerCase python e request st =
     (let (submittedActivity, st0) =
            createActivity (randomUUID e 0) (clock e 1)
              \<lparr>action = str ''Problem submitted'',
               activitySource = str ''user_input'',
               details = Some (take 100 (reqProblem request))\<rparr> st
      in (case callPythonSolver python (reqProblem request) (showSteps request)
                 (includeExplanations request) of
            Inr sol \<Rightarrow>
              (let cat = categorizeProblems toLowerCase (reqProblem request);
                   (problemRecord, st1) =
                     createMathProblem (randomUUID e 1) (clock e 2)
                       \<lparr>mpProblem = reqProblem request,
                        mpSolution = sol,
                        mpCategory = cat,
                        difficulty = str ''intermediate'',
                        mpSource = str ''math_solver''\<rparr> st0;
                   (activity, st2) =
                     createActivity (randomUUID e 2) (clock e 3)
                       \<lparr>action = str ''Solution generated'',
                        activitySource = str ''math_solver'',
                        details = Some (str ''Category: '' @ cat)\<rparr> st1
               in (Inr \<lparr>respProblem = reqProblem request,
                        respSolution = sol,
                        respSource = knowledge_base,
                        responseTime = int (clock e 4) - int (clock e 0),
                        respCategory = Some cat,
                        problemId = mpId problemRecord\<rparr>, st2))
          | Inl (Error message) \<Rightarrow>
              (let (activity, st1) =
                     createActivity (randomUUID e 1) (clock e 2)
                       \<lparr>action = str ''Solution failed'',
                        activitySource = str ''error'',
                        details = Some message\<rparr> st0
               in (Inl (Error (str ''Failed to solve the mathematical problem. Please try again or rephrase your question.'')),
                   st1))))"

subsection \<open>Names for parts of \<open>solveProblem\<close>\<close>

text \<open>The storage after the "Problem submitted" activity has been logged.\<close>

definition submitted :: "env \<Rightarrow> MathSolutionRequest \<Rightarrow> MemStorage \<Rightarrow> MemStorage" where
  "submitted e request st =
     snd (createActivity (randomUUID e 0) (clock e 1)
            \<lparr>action = str ''Problem submitted'',
             activitySource = str ''user_input'',
             details = Some (take 100 (reqProblem request))\<rparr> st)"

text \<open>The condition of the if statement that chooses the knowledge-base answer.\<close>

definition routedToKnowledgeBase :: "lowerCase \<Rightarrow> MockVectorDB \<Rightarrow> jsstring \<Rightarrow> bool" where
  "routedToKnowledgeBase toLowerCase db query =
     (fst (searchSimilarProblems toLowerCase db query 3) \<noteq> []
      \<and> js_gt (similarity (hd (fst (searchSimilarProblems toLowerCase db query 3)))) (7 / 10))"

section \<open>Sample inputs\<close>

text \<open>
  Concrete inputs on which the theorems below are instantiated: an environment, an empty
  storage, two requests, and a store that holds the one problem \<open>1+1\<close>.
\<close>

definition sampleEnv :: env where
  "sampleEnv = \<lparr>randomUUID = (\<lambda>k. decimal k), clock = (\<lambda>k. 1000 + k)\<rparr>"

definition emptyStorage :: MemStorage where
  "emptyStorage = \<lparr>mathProblems = [], systemActivities = []\<rparr>"

definition onePlusOne :: MathSolutionRequest where
  "onePlusOne = \<lparr>reqProblem = str ''1+1'', showSteps = True, includeExplanations = True\<rparr>"

definition helloThere :: MathSolutionRequest where
  "helloThere = \<lparr>reqProblem = str ''hello there'', showSteps = True, includeExplanations = True\<rparr>"

definition answerTwo :: solution where
  "answerTwo = \<lparr>steps = [], finalAnswer = str ''2'', sources = None\<rparr>"

definition onePlusOneStore :: MockVectorDB where
  "onePlusOneStore =
     addProblem asciiLowerCase \<lparr>problems = []\<rparr> (str ''1+1'') answerTwo (str ''arithmetic'')"

text \<open>
  A store of three problems for the search: the text \<open>2\<close> first, then the text \<open>1\<close>
  twice, with different categories.
\<close>

definition answerOne :: solution where
  "answerOne = \<lparr>steps = [], finalAnswer = str ''one'', sources = None\<rparr>"


text \<open>
  What lower-casing does on text of code units below 256: besides the ASCII letters, the
  Latin-1 capitals U+00C0 to U+00DE (without the multiplication sign U+00D7) move up by
  32. \<open>ecole\<close> is the text "ECOLE" with an acute accent on its first letter.
\<close>

definition latin1Unit :: "nat \<Rightarrow> nat" where
  "latin1Unit c =
     (if (65 \<le> c \<and> c \<le> 90) \<or> (192 \<le> c \<and> c \<le> 222 \<and> c \<noteq> 215) then c + 32 else c)"

definition latin1LowerCase :: lowerCase where
  "latin1LowerCase s = map latin1Unit s"

definition ecole :: jsstring where
  "ecole = [201, 67, 79, 76, 69]"

section \<open>Properties of the similarity scorer\<close>

lemma accumulate_sums:
  "foldl (\<lambda>(d, n1, n2) i. (d + a ! i * b ! i, n1 + a ! i * a ! i, n2 + b ! i * b ! i))
         (0, 0, 0) [0 ..< n]
   = (\<Sum>i<n. a ! i * b ! i, \<Sum>i<n. a ! i * a ! i, \<Sum>i<n. b ! i * (b ! i :: real))"
  by (induction n) simp_all

lemma accumulate_eq:
  "accumulate a b = (\<Sum>i<length a. a ! i * b ! i, \<Sum>i<length a. a ! i * a ! i,
                     \<Sum>i<length a. b ! i * b ! i)"
  unfolding accumulate_def by (rule accumulate_sums)

lemma sum_squares_pos:
  assumes "\<exists>x\<in>set a. x \<noteq> (0::real)"
  shows "0 < (\<Sum>i<length a. a ! i * a ! i)"
proof -
  from assms obtain k where k: "k < length a" "a ! k \<noteq> 0"
    by (auto simp: in_set_conv_nth)
  have "0 < a ! k * a ! k"
    using k(2) by (auto simp: zero_less_mult_iff linorder_neq_iff)
  also have "\<dots> \<le> (\<Sum>i<length a. a ! i * a ! i)"
    by (rule member_le_sum) (use k in auto)
  finally show ?thesis .
qed


lemma calculateSimilarity_self:
  assumes "\<exists>x\<in>set a. x \<noteq> 0"
  shows "calculateSimilarity a a = Finite 1"
proof -
  let ?n = "\<Sum>i<length a. a ! i * a ! i"
  have pos: "0 < ?n" using assms by (rule sum_squares_pos)
  have "sqrt ?n * sqrt ?n = ?n" using pos by simp
  then show ?thesis using pos
    by (simp add: calculateSimilarity_def accumulate_eq js_div_def)
qed




text \<open>
  C9. The cosine similarity of a non-zero embedding with itself is 1: the dot product
  of the vector with itself divided by the product of its two equal norms. The statement
  holds for every length, 384 included, and is exact over the reals.
\<close>

theorem self_similarity_is_one:
  "\<exists>x\<in>set a. x \<noteq> 0 \<Longrightarrow> calculateSimilarity a a = Finite 1"
  by (rule calculateSimilarity_self)

theorem self_similarity_is_one_witness:
  "(\<exists>x\<in>set [3, 4 :: real]. x \<noteq> 0) \<and> calculateSimilarity [3, 4] [3, 4] = Finite 1"
  using self_similarity_is_one [of "[3, 4]"] by simp

lemma calculateSimilarity_nonzero:
  assumes "length a = length b" "\<exists>x\<in>set a. x \<noteq> 0" "\<exists>x\<in>set b. x \<noteq> 0"
  shows "calculateSimilarity a b
         = Finite ((\<Sum>i<length a. a ! i * b ! i)
                   / (sqrt (\<Sum>i<length a. a ! i * a ! i) * sqrt (\<Sum>i<length a. b ! i * b ! i)))"
proof -
  have "0 < (\<Sum>i<length a. a ! i * a ! i)"
    using assms(2) by (rule sum_squares_pos)
  moreover have "0 < (\<Sum>i<length a. b ! i * b ! i)"
    using sum_squares_pos[OF assms(3)] assms(1) by simp
  ultimately show ?thesis
    using assms(1) by (simp add: calculateSimilarity_def accumulate_eq js_div_def)
qed








section \<open>Properties of the embedding generator\<close>

lemma map_zip_upt_replicate:
  "map f (zip [0 ..< n] (replicate n c)) = map (\<lambda>i. f (i, c)) [0 ..< n]"
  by (rule nth_equalityI) simp_all

lemma simpleHash_Nil: "simpleHash [] = 0"
  by (simp add: simpleHash_def)

lemma split_space_not_Nil: "split_space s \<noteq> []"
  by (induction s) (auto split: list.splits)

lemma length_addWord: "length (addWord emb iw) = length emb"
  by (simp add: addWord_def)

lemma length_foldl_addWord: "length (foldl addWord emb ws) = length emb"
  by (induction ws arbitrary: emb) (simp_all add: length_addWord)

lemma length_generateMockEmbedding: "length (generateMockEmbedding toLowerCase s) = 384"
  by (simp add: generateMockEmbedding_def Let_def length_foldl_addWord)

lemma generateMockEmbedding_one_word:
  "toLowerCase [] = [] \<Longrightarrow>
     generateMockEmbedding toLowerCase [] = addWord (replicate 384 0) (0, [])"
  by (simp add: generateMockEmbedding_def)

lemma generateMockEmbedding_Nil:
  assumes "toLowerCase [] = []"
  shows "generateMockEmbedding toLowerCase [] = map (\<lambda>i. sin (real i) * (1 / 10)) [0 ..< 384]"
  unfolding generateMockEmbedding_one_word[of toLowerCase, OF assms]
  by (simp add: addWord_def simpleHash_Nil map_zip_upt_replicate del: upt.simps replicate.simps)

lemma sin_one_pos: "0 < sin (1::real)"
  by (rule sin_gt_zero) (use pi_ge_two in auto)

lemma generateMockEmbedding_Nil_nth1:
  assumes "toLowerCase [] = []"
  shows "generateMockEmbedding toLowerCase [] ! 1 = sin 1 * (1 / 10)"
  by (simp add: generateMockEmbedding_Nil[of toLowerCase, OF assms] del: upt.simps)

lemma generateMockEmbedding_Nil_nonzero:
  assumes "toLowerCase [] = []"
  shows "\<exists>x\<in>set (generateMockEmbedding toLowerCase []). x \<noteq> 0"
proof -
  have "generateMockEmbedding toLowerCase [] ! 1 \<in> set (generateMockEmbedding toLowerCase [])"
    by (rule nth_mem) (simp add: length_generateMockEmbedding)
  moreover have "generateMockEmbedding toLowerCase [] ! 1 \<noteq> 0"
    using sin_one_pos unfolding generateMockEmbedding_Nil_nth1[of toLowerCase, OF assms] by simp
  ultimately show ?thesis by blast
qed

text \<open>
  A text with a single token never has the zero vector as its embedding: the sine cannot
  vanish at two consecutive integers.
\<close>

lemma sin_consecutive: "sin (a::real) = 0 \<Longrightarrow> sin (a + 1) \<noteq> 0"
proof
  assume a: "sin a = 0" and b: "sin (a + 1) = 0"
  have "sin (a + 1) = sin a * cos 1 + cos a * sin 1" by (rule sin_add)
  then have "cos a * sin 1 = 0" using a b by simp
  then have "cos a = 0" using sin_one_pos by simp
  moreover have "(sin a)\<^sup>2 + (cos a)\<^sup>2 = 1" by (rule sin_cos_squared_add)
  ultimately show False using a by simp
qed

lemma generateMockEmbedding_single_token:
  assumes "split_space (toLowerCase s) = [w]"
  shows "generateMockEmbedding toLowerCase s
         = map (\<lambda>i. sin (of_int (simpleHash w + int i)) * (1 / 10)) [0 ..< 384]"
proof -
  have "generateMockEmbedding toLowerCase s = addWord (replicate 384 0) (0, w)"
    using assms by (simp add: generateMockEmbedding_def)
  then show ?thesis
    by (simp add: addWord_def map_zip_upt_replicate del: upt.simps replicate.simps)
qed

lemma single_token_nonzero:
  assumes "split_space (toLowerCase s) = [w]"
  shows "\<exists>x\<in>set (generateMockEmbedding toLowerCase s). x \<noteq> 0"
proof -
  let ?h = "of_int (simpleHash w) :: real"
  have e0: "generateMockEmbedding toLowerCase s ! 0 = sin ?h * (1 / 10)"
    by (simp add: generateMockEmbedding_single_token[of toLowerCase s w, OF assms] del: upt.simps)
  have e1: "generateMockEmbedding toLowerCase s ! 1 = sin (?h + 1) * (1 / 10)"
    by (simp add: generateMockEmbedding_single_token[of toLowerCase s w, OF assms] del: upt.simps)
  have m0: "generateMockEmbedding toLowerCase s ! 0 \<in> set (generateMockEmbedding toLowerCase s)"
    by (rule nth_mem) (simp add: length_generateMockEmbedding)
  have m1: "generateMockEmbedding toLowerCase s ! 1 \<in> set (generateMockEmbedding toLowerCase s)"
    by (rule nth_mem) (simp add: length_generateMockEmbedding)
  show ?thesis
  proof (cases "sin ?h = 0")
    case True
    then have "sin (?h + 1) \<noteq> 0" by (rule sin_consecutive)
    then have "generateMockEmbedding toLowerCase s ! 1 \<noteq> 0" unfolding e1 by simp
    with m1 show ?thesis by blast
  next
    case False
    then have "generateMockEmbedding toLowerCase s ! 0 \<noteq> 0" unfolding e0 by simp
    with m0 show ?thesis by blast
  qed
qed

lemma asciiLowerCase_Nil: "asciiLowerCase [] = []"
  by (simp add: asciiLowerCase_def)

text \<open>
  C8, as the code has it. \<open>split(' ')\<close> never returns an empty array, and every
  embedding has length 384. Lower-casing the empty string gives the empty string; then
  the empty string gives the single empty token, whose hash is 0, and its embedding is
  the vector of length 384 with \<open>sin(i) * 0.1\<close> at index \<open>i\<close>: 0 at index 0, not 0 at
  index 1.
\<close>

theorem embedding_of_empty_string:
  "split_space (toLowerCase s) \<noteq> []
   \<and> length (generateMockEmbedding toLowerCase s) = 384
   \<and> (toLowerCase [] = [] \<longrightarrow>
        generateMockEmbedding toLowerCase [] = map (\<lambda>i. sin (real i) * (1 / 10)) [0 ..< 384]
        \<and> generateMockEmbedding toLowerCase [] ! 0 = 0
        \<and> generateMockEmbedding toLowerCase [] ! 1 \<noteq> 0)"
proof (intro conjI impI)
  show "split_space (toLowerCase s) \<noteq> []"
    by (rule split_space_not_Nil)
  show "length (generateMockEmbedding toLowerCase s) = 384"
    by (rule length_generateMockEmbedding)
next
  assume e: "toLowerCase [] = []"
  show "generateMockEmbedding toLowerCase [] = map (\<lambda>i. sin (real i) * (1 / 10)) [0 ..< 384]"
    by (rule generateMockEmbedding_Nil[of toLowerCase, OF e])
  show "generateMockEmbedding toLowerCase [] ! 0 = 0"
    by (simp add: generateMockEmbedding_Nil[of toLowerCase, OF e] del: upt.simps)
  show "generateMockEmbedding toLowerCase [] ! 1 \<noteq> 0"
    using sin_one_pos unfolding generateMockEmbedding_Nil_nth1[of toLowerCase, OF e] by simp
qed

theorem embedding_of_empty_string_witness:
  "asciiLowerCase [] = []
   \<and> split_space (asciiLowerCase []) = [[]]
   \<and> length (generateMockEmbedding asciiLowerCase []) = 384
   \<and> generateMockEmbedding asciiLowerCase [] = map (\<lambda>i. sin (real i) * (1 / 10)) [0 ..< 384]
   \<and> generateMockEmbedding asciiLowerCase [] ! 0 = 0
   \<and> generateMockEmbedding asciiLowerCase [] ! 1 \<noteq> 0"
proof -
  note t = embedding_of_empty_string [of asciiLowerCase "[]"]
  have "split_space (asciiLowerCase []) = [[]]"
    by (simp add: asciiLowerCase_Nil)
  with t asciiLowerCase_Nil show ?thesis by blast
qed

text \<open>
  C8, as the claim states it, fails: the embedding of the empty string is not the
  all-zero vector of length 384.
\<close>

theorem embedding_of_empty_string_not_zero:
  "generateMockEmbedding asciiLowerCase [] \<noteq> replicate 384 0"
proof
  assume "generateMockEmbedding asciiLowerCase [] = replicate 384 0"
  then have "generateMockEmbedding asciiLowerCase [] ! 1 = replicate 384 (0::real) ! 1" by simp
  then have "sin (1::real) * (1 / 10) = 0"
    unfolding generateMockEmbedding_Nil_nth1[of asciiLowerCase, OF asciiLowerCase_Nil] by simp
  then show False
    using sin_one_pos by simp
qed

section \<open>Properties of the content guard\<close>

lemma startsWith_iff: "startsWith s k \<longleftrightarrow> (\<exists>post. s = k @ post)"
  by (induction s k rule: startsWith.induct) auto

lemma includes_str_iff: "includes_str s k \<longleftrightarrow> (\<exists>pre post. s = pre @ k @ post)"
proof (induction s)
  case Nil
  then show ?case by auto
next
  case (Cons c cs)
  show ?case
  proof
    assume "includes_str (c # cs) k"
    then consider "startsWith (c # cs) k" | "includes_str cs k" by auto
    then show "\<exists>pre post. c # cs = pre @ k @ post"
    proof cases
      case 1
      then obtain post where "c # cs = k @ post" by (auto simp: startsWith_iff)
      then have "c # cs = [] @ k @ post" by simp
      then show ?thesis by blast
    next
      case 2
      then obtain pre post where "cs = pre @ k @ post" using Cons.IH by auto
      then have "c # cs = (c # pre) @ k @ post" by simp
      then show ?thesis by blast
    qed
  next
    assume "\<exists>pre post. c # cs = pre @ k @ post"
    then obtain pre post where eq: "c # cs = pre @ k @ post" by blast
    show "includes_str (c # cs) k"
    proof (cases pre)
      case Nil
      then have "startsWith (c # cs) k" using eq by (auto simp: startsWith_iff)
      then show ?thesis by simp
    next
      case (Cons p ps)
      then have "cs = ps @ k @ post" using eq by simp
      then have "includes_str cs k" using Cons.IH by blast
      then show ?thesis by simp
    qed
  qed
qed

lemma matchVariable_iff:
  "matchVariable p s \<longleftrightarrow>
     (\<exists>pre c post. s = pre @ c # post \<and> isLetter c
        \<and> (if pre = [] then \<not> p else \<not> isWordChar (last pre))
        \<and> (post = [] \<or> \<not> isWordChar (hd post)))"
proof (induction s arbitrary: p)
  case Nil
  then show ?case by simp
next
  case (Cons a s)
  let ?here = "\<not> p \<and> isLetter a \<and> (s = [] \<or> \<not> isWordChar (hd s))"
  let ?R = "\<lambda>p s. \<exists>pre c post. s = pre @ c # post \<and> isLetter c
        \<and> (if pre = [] then \<not> p else \<not> isWordChar (last pre))
        \<and> (post = [] \<or> \<not> isWordChar (hd post))"
  have step: "matchVariable p (a # s) \<longleftrightarrow> ?here \<or> ?R (isWordChar a) s"
    using Cons.IH[of "isWordChar a"] by (cases s) auto
  have "?R p (a # s) \<longleftrightarrow> ?here \<or> ?R (isWordChar a) s"
  proof
    assume "?R p (a # s)"
    then obtain pre c post where h: "a # s = pre @ c # post" "isLetter c"
      "if pre = [] then \<not> p else \<not> isWordChar (last pre)"
      "post = [] \<or> \<not> isWordChar (hd post)" by blast
    show "?here \<or> ?R (isWordChar a) s"
    proof (cases pre)
      case Nil
      then show ?thesis using h by auto
    next
      case (Cons b pre')
      then have s: "s = pre' @ c # post" and b: "b = a" using h(1) by auto
      have "if pre' = [] then \<not> isWordChar a else \<not> isWordChar (last pre')"
        using h(3) Cons b by (auto split: if_splits)
      then have "?R (isWordChar a) s" using s h(2) h(4) by blast
      then show ?thesis by blast
    qed
  next
    assume "?here \<or> ?R (isWordChar a) s"
    then show "?R p (a # s)"
    proof
      assume ?here
      then have "a # s = [] @ a # s \<and> isLetter a \<and> (if [] = ([]::nat list) then \<not> p else \<not> isWordChar (last []))
         \<and> (s = [] \<or> \<not> isWordChar (hd s))" by simp
      then show ?thesis by blast
    next
      assume "?R (isWordChar a) s"
      then obtain pre c post where h: "s = pre @ c # post" "isLetter c"
        "if pre = [] then \<not> isWordChar a else \<not> isWordChar (last pre)"
        "post = [] \<or> \<not> isWordChar (hd post)" by blast
      have "a # s = (a # pre) @ c # post" using h(1) by simp
      moreover have "if a # pre = [] then \<not> p else \<not> isWordChar (last (a # pre))"
        using h(3) by (auto split: if_splits)
      ultimately show ?thesis using h(2) h(4) by blast
    qed
  qed
  with step show ?case by blast
qed

lemma hasNonMathContent_iff:
  "hasNonMathContent toLowerCase input \<longleftrightarrow>
     (\<exists>keyword\<in>set nonMathKeywords. \<exists>pre post. toLowerCase input = pre @ keyword @ post)"
  by (simp add: hasNonMathContent_def list_ex_iff includes_str_iff)

lemma hasMathContent_iff:
  "hasMathContent toLowerCase input \<longleftrightarrow>
     (\<exists>keyword\<in>set mathKeywords. \<exists>pre post. toLowerCase input = pre @ keyword @ post)"
  by (simp add: hasMathContent_def list_ex_iff includes_str_iff)

lemma hasSymbols_iff: "hasSymbols input \<longleftrightarrow> (\<exists>c\<in>set input. c \<in> set mathSymbols)"
  by (simp add: hasSymbols_def list_ex_iff)

lemma hasNumbers_iff: "hasNumbers input \<longleftrightarrow> (\<exists>c\<in>set input. isDigit c)"
  by (simp add: hasNumbers_def list_ex_iff)

lemma hasVariables_iff:
  "hasVariables input \<longleftrightarrow>
     (\<exists>pre c post. input = pre @ c # post \<and> isLetter c
        \<and> (pre = [] \<or> \<not> isWordChar (last pre))
        \<and> (post = [] \<or> \<not> isWordChar (hd post)))"
  unfolding hasVariables_def matchVariable_iff
  by (simp only: if_True if_False not_False_eq_True if_bool_eq_disj) blast

lemmas guard_defs = validateMathematicalContent_def hasNonMathContent_def hasMathContent_def
  hasSymbols_def hasNumbers_def hasVariables_def nonMathKeywords_def mathKeywords_def
  mathSymbols_def str_def asciiLowerCase_def lowerUnit_def isDigit_def isLetter_def isWordChar_def

lemma guard_accepts_quadratic:
  "validateMathematicalContent asciiLowerCase (str ''solve x^2 + 5x + 6 = 0'')
   = \<lparr>isValid = True, reason = None\<rparr>"
  by (simp add: guard_defs)

lemma guard_rejects_politics:
  "validateMathematicalContent asciiLowerCase (str ''tell me about politics'')
   = \<lparr>isValid = False, reason = Some reasonInappropriate\<rparr>"
  by (simp add: guard_defs)

lemma guard_rejects_hello:
  "validateMathematicalContent asciiLowerCase (str ''hello there'')
   = \<lparr>isValid = False, reason = Some reasonNotMath\<rparr>"
  by (simp add: guard_defs)

text \<open>
  C5. The guard applies its rules in order. If the lower-cased input contains a term of
  the denylist as a substring, the input is rejected with the reason on inappropriate
  or non-educational content. Otherwise, if the lower-cased input contains a keyword of
  the allowlist, or the input has a code unit of the symbol class, or the input has a
  digit and a letter that has no word character on either side, it is accepted.
  Otherwise it is rejected with the reason that it is not a mathematical problem. This
  holds for whatever the runtime's lower-casing returns. The three inputs of the claim
  are ASCII text; lower-cased as such they get the three outcomes, in this order:
  accepted, rejected by the denylist, rejected as not mathematical.
\<close>

theorem content_guard_policy:
  "(if (\<exists>keyword\<in>set nonMathKeywords. \<exists>pre post. toLowerCase input = pre @ keyword @ post)
    then validateMathematicalContent toLowerCase input
           = \<lparr>isValid = False, reason = Some reasonInappropriate\<rparr>
    else if (\<exists>keyword\<in>set mathKeywords. \<exists>pre post. toLowerCase input = pre @ keyword @ post)
            \<or> (\<exists>c\<in>set input. c \<in> set mathSymbols)
            \<or> ((\<exists>c\<in>set input. isDigit c)
                \<and> (\<exists>pre c post. input = pre @ c # post \<and> isLetter c
                      \<and> (pre = [] \<or> \<not> isWordChar (last pre))
                      \<and> (post = [] \<or> \<not> isWordChar (hd post))))
    then validateMathematicalContent toLowerCase input = \<lparr>isValid = True, reason = None\<rparr>
    else validateMathematicalContent toLowerCase input
           = \<lparr>isValid = False, reason = Some reasonNotMath\<rparr>)
   \<and> validateMathematicalContent asciiLowerCase (str ''solve x^2 + 5x + 6 = 0'')
       = \<lparr>isValid = True, reason = None\<rparr>
   \<and> validateMathematicalContent asciiLowerCase (str ''tell me about politics'')
       = \<lparr>isValid = False, reason = Some reasonInappropriate\<rparr>
   \<and> validateMathematicalContent asciiLowerCase (str ''hello there'')
       = \<lparr>isValid = False, reason = Some reasonNotMath\<rparr>"
proof -
  have "validateMathematicalContent toLowerCase input =
     (if hasNonMathContent toLowerCase input
      then \<lparr>isValid = False, reason = Some reasonInappropriate\<rparr>
      else if hasMathContent toLowerCase input \<or> hasSymbols input
              \<or> (hasNumbers input \<and> hasVariables input)
      then \<lparr>isValid = True, reason = None\<rparr>
      else \<lparr>isValid = False, reason = Some reasonNotMath\<rparr>)"
    by (simp only: validateMathematicalContent_def)
  then have "if hasNonMathContent toLowerCase input
      then validateMathematicalContent toLowerCase input
             = \<lparr>isValid = False, reason = Some reasonInappropriate\<rparr>
      else if hasMathContent toLowerCase input \<or> hasSymbols input
              \<or> (hasNumbers input \<and> hasVariables input)
      then validateMathematicalContent toLowerCase input = \<lparr>isValid = True, reason = None\<rparr>
      else validateMathematicalContent toLowerCase input
             = \<lparr>isValid = False, reason = Some reasonNotMath\<rparr>"
    by (simp split: if_splits)
  then show ?thesis
    unfolding hasNonMathContent_iff hasMathContent_iff hasSymbols_iff hasNumbers_iff
      hasVariables_iff
    using guard_accepts_quadratic guard_rejects_politics guard_rejects_hello
    by blast
qed

lemma reasons_distinct: "reasonInappropriate \<noteq> reasonNotMath"
  by (simp add: reasonInappropriate_def reasonNotMath_def str_def)

theorem content_guard_policy_witness:
  "(\<exists>keyword\<in>set nonMathKeywords. \<exists>pre post.
       asciiLowerCase (str ''tell me about politics'') = pre @ keyword @ post)
   \<and> validateMathematicalContent asciiLowerCase (str ''tell me about politics'')
       = \<lparr>isValid = False, reason = Some reasonInappropriate\<rparr>
   \<and> \<not> (\<exists>keyword\<in>set nonMathKeywords. \<exists>pre post.
       asciiLowerCase (str ''solve x^2 + 5x + 6 = 0'') = pre @ keyword @ post)
   \<and> validateMathematicalContent asciiLowerCase (str ''solve x^2 + 5x + 6 = 0'')
       = \<lparr>isValid = True, reason = None\<rparr>
   \<and> \<not> (\<exists>keyword\<in>set nonMathKeywords. \<exists>pre post.
       asciiLowerCase (str ''hello there'') = pre @ keyword @ post)
   \<and> validateMathematicalContent asciiLowerCase (str ''hello there'')
       = \<lparr>isValid = False, reason = Some reasonNotMath\<rparr>"
proof -
  note p = content_guard_policy[of asciiLowerCase "str ''tell me about politics''"]
  note q = content_guard_policy[of asciiLowerCase "str ''solve x^2 + 5x + 6 = 0''"]
  note h = content_guard_policy[of asciiLowerCase "str ''hello there''"]
  have a: "\<exists>keyword\<in>set nonMathKeywords. \<exists>pre post.
       asciiLowerCase (str ''tell me about politics'') = pre @ keyword @ post"
  proof (rule ccontr)
    assume "\<not> ?thesis"
    with p reasons_distinct show False by (auto split: if_splits)
  qed
  have b: "\<not> (\<exists>keyword\<in>set nonMathKeywords. \<exists>pre post.
       asciiLowerCase (str ''solve x^2 + 5x + 6 = 0'') = pre @ keyword @ post)"
  proof
    assume "\<exists>keyword\<in>set nonMathKeywords. \<exists>pre post.
       asciiLowerCase (str ''solve x^2 + 5x + 6 = 0'') = pre @ keyword @ post"
    with q show False by (auto split: if_splits)
  qed
  have c: "\<not> (\<exists>keyword\<in>set nonMathKeywords. \<exists>pre post.
       asciiLowerCase (str ''hello there'') = pre @ keyword @ post)"
  proof
    assume "\<exists>keyword\<in>set nonMathKeywords. \<exists>pre post.
       asciiLowerCase (str ''hello there'') = pre @ keyword @ post"
    with h reasons_distinct show False by (auto split: if_splits)
  qed
  from a b c p show ?thesis by blast
qed

section \<open>Properties of the fallback responder\<close>

lemma generateSolutionFromSearch_Nil:
  "generateSolutionFromSearch query [] =
     \<lparr>steps = [mkStep 1 (str ''Search completed'')
                (str ''No specific mathematical problem solution found'')
                (str ''This appears to be an advanced topic that requires specialized knowledge'')],
      finalAnswer = str ''Please provide more specific mathematical details for a step-by-step solution'',
      sources = Some []\<rparr>"
  by (simp add: generateSolutionFromSearch_def)

lemma generateSolutionFromSearch_nonempty:
  "searchResults \<noteq> [] \<Longrightarrow>
     length (steps (generateSolutionFromSearch query searchResults)) = 2
     \<and> stepContent (hd (steps (generateSolutionFromSearch query searchResults)))
         = take 200 (resultContent (hd searchResults)) @ str ''...''
     \<and> sources (generateSolutionFromSearch query searchResults)
         = Some (map (\<lambda>r. \<lparr>sourceTitle = resultTitle r, sourceUrl = resultUrl r\<rparr>) searchResults)"
  by (cases searchResults) (simp_all add: generateSolutionFromSearch_def mkStep_def)

text \<open>
  C7, as the code has it. For no search results the document has exactly one step, titled
  "Search completed", whose content says that no solution was found, and an empty list
  of sources. For one or more results it has exactly two steps; the content of the
  first is the first 200 code units of the first result's content followed by three
  dots, and the sources are the title and the URL of every result, in order.
\<close>

theorem fallback_document:
  "length (steps (generateSolutionFromSearch query [])) = 1
   \<and> stepTitle (hd (steps (generateSolutionFromSearch query []))) = str ''Search completed''
   \<and> stepContent (hd (steps (generateSolutionFromSearch query [])))
       = str ''No specific mathematical problem solution found''
   \<and> sources (generateSolutionFromSearch query []) = Some []
   \<and> (searchResults \<noteq> [] \<longrightarrow>
        length (steps (generateSolutionFromSearch query searchResults)) = 2
        \<and> stepContent (hd (steps (generateSolutionFromSearch query searchResults)))
            = take 200 (resultContent (hd searchResults)) @ str ''...''
        \<and> sources (generateSolutionFromSearch query searchResults)
            = Some (map (\<lambda>r. \<lparr>sourceTitle = resultTitle r, sourceUrl = resultUrl r\<rparr>)
                        searchResults))"
  using generateSolutionFromSearch_nonempty [of searchResults query]
  by (simp add: generateSolutionFromSearch_Nil mkStep_def)

theorem fallback_document_witness:
  "mockResults \<noteq> []
   \<and> length (steps (generateSolutionFromSearch [] mockResults)) = 2
   \<and> stepContent (hd (steps (generateSolutionFromSearch [] mockResults)))
       = take 200 (resultContent (hd mockResults)) @ str ''...''
   \<and> sources (generateSolutionFromSearch [] mockResults)
       = Some (map (\<lambda>r. \<lparr>sourceTitle = resultTitle r, sourceUrl = resultUrl r\<rparr>) mockResults)"
proof -
  have ne: "mockResults \<noteq> []" by (simp add: mockResults_def)
  with fallback_document [of "[]" mockResults] show ?thesis by blast
qed

text \<open>
  C7, as the claim states it, fails: the content of the first step is not the truncated
  content of the first result, because three dots are appended to it.
\<close>

theorem fallback_content_not_plain_truncation:
  "stepContent (hd (steps (generateSolutionFromSearch [] mockResults)))
   \<noteq> take 200 (resultContent (hd mockResults))"
  by (simp add: generateSolutionFromSearch_def mkStep_def mockResults_def str_def)

section \<open>Properties of the knowledge store\<close>

lemma length_insert_sorted: "length (insert_sorted cmp x ys) = Suc (length ys)"
  by (induction ys) simp_all

lemma length_sort_js: "length (sort_js cmp xs) = length xs"
  by (induction xs) (simp_all add: sort_js_def length_insert_sorted)

lemma mset_insert_sorted: "mset (insert_sorted cmp x ys) = add_mset x (mset ys)"
  by (induction ys) simp_all

lemma mset_sort_js: "mset (sort_js cmp xs) = mset xs"
  by (induction xs) (simp_all add: sort_js_def mset_insert_sorted)









lemma slice0_all: "int (length xs) \<le> limit \<Longrightarrow> slice0 xs limit = xs"
  by (auto simp: slice0_def Let_def)


lemma set_slice0: "set (slice0 xs limit) \<subseteq> set xs"
  by (simp add: slice0_def Let_def set_take_subset)

lemma length_results: "length (results toLowerCase db query) = length (problems db)"
  by (simp add: results_def)

lemma search_fst:
  "fst (searchSimilarProblems toLowerCase db query limit)
   = slice0 (sort_js compareFn (results toLowerCase db query)) limit"
  by (simp add: searchSimilarProblems_def)


lemma results_empty_store: "results toLowerCase \<lparr>problems = []\<rparr> query = []"
  by (simp add: results_def)

lemma results_addProblem:
  "results toLowerCase (addProblem toLowerCase db p sol cat) query =
     results toLowerCase db query @
       [\<lparr>problem = toLowerCase p, solution = sol,
         similarity = calculateSimilarity (generateMockEmbedding toLowerCase query)
                        (generateMockEmbedding toLowerCase p),
         category = cat, source = str ''knowledge_base''\<rparr>]"
  by (simp add: results_def addProblem_def scoreProblem_def Let_def)

text \<open>
  A score is NaN only for an all-zero embedding, and the embedding of a text of one token
  is not all-zero: in a store of one-token texts, searched with a one-token query, every
  score is a number.
\<close>

lemma one_token_scores_not_NaN:
  assumes q: "split_space (toLowerCase query) = [w]"
    and db: "list_all (\<lambda>e. \<exists>t v. split_space (toLowerCase t) = [v]
                              \<and> embedding e = generateMockEmbedding toLowerCase t) (problems db)"
  shows "list_all (\<lambda>r. similarity r \<noteq> NaN) (results toLowerCase db query)"
proof -
  let ?q = "generateMockEmbedding toLowerCase query"
  have nq: "\<exists>x\<in>set ?q. x \<noteq> 0"
    by (rule single_token_nonzero[of toLowerCase query w, OF q])
  have "similarity (scoreProblem ?q e) \<noteq> NaN" if "e \<in> set (problems db)" for e
  proof -
    from db that obtain t v where t: "split_space (toLowerCase t) = [v]"
      and e: "embedding e = generateMockEmbedding toLowerCase t"
      by (auto simp: list_all_iff)
    have ne: "\<exists>x\<in>set (generateMockEmbedding toLowerCase t). x \<noteq> 0"
      by (rule single_token_nonzero[of toLowerCase t v, OF t])
    have len: "length ?q = length (generateMockEmbedding toLowerCase t)"
      by (simp add: length_generateMockEmbedding)
    show ?thesis
      using calculateSimilarity_nonzero[OF len nq ne] by (simp add: scoreProblem_def e)
  qed
  then show ?thesis by (simp add: results_def Let_def list_all_iff)
qed

















lemma lowerUnit_idem: "lowerUnit (lowerUnit c) = lowerUnit c"
  by (simp add: lowerUnit_def)

lemma asciiLowerCase_idem: "asciiLowerCase (asciiLowerCase s) = asciiLowerCase s"
  by (simp add: asciiLowerCase_def lowerUnit_idem)

lemma generateMockEmbedding_toLowerCase:
  "toLowerCase (toLowerCase p) = toLowerCase p \<Longrightarrow>
     generateMockEmbedding toLowerCase (toLowerCase p) = generateMockEmbedding toLowerCase p"
  by (simp add: generateMockEmbedding_def)

lemma set_search_subset:
  "set (fst (searchSimilarProblems toLowerCase db query limit))
   \<subseteq> set (results toLowerCase db query)"
proof -
  let ?r = "results toLowerCase db query"
  have "set (sort_js compareFn ?r) = set ?r"
    using mset_sort_js[of compareFn ?r] by (rule mset_eq_setD)
  then show ?thesis
    unfolding search_fst using set_slice0[of "sort_js compareFn ?r" limit] by simp
qed

lemma set_search_all:
  assumes "int (length (problems db)) \<le> limit"
  shows "set (fst (searchSimilarProblems toLowerCase db query limit))
         = set (results toLowerCase db query)"
proof -
  let ?r = "results toLowerCase db query"
  have "slice0 (sort_js compareFn ?r) limit = sort_js compareFn ?r"
    using assms by (intro slice0_all) (simp add: length_sort_js length_results)
  moreover have "set (sort_js compareFn ?r) = set ?r"
    using mset_sort_js[of compareFn ?r] by (rule mset_eq_setD)
  ultimately show ?thesis unfolding search_fst by simp
qed

lemma latin1LowerCase_ecole: "latin1LowerCase ecole = [233, 99, 111, 108, 101]"
  by (simp add: latin1LowerCase_def latin1Unit_def ecole_def)

lemma latin1LowerCase_ecole_idem:
  "latin1LowerCase (latin1LowerCase ecole) = latin1LowerCase ecole"
  by (simp add: latin1LowerCase_ecole) (simp add: latin1LowerCase_def latin1Unit_def)

text \<open>
  C10. \<open>addProblem\<close> appends exactly one entry. Its text is the lower-cased problem
  text and its embedding is computed from the text as given. Where lower-casing the
  lower-cased text changes nothing, as the lower-casing of the language does, this is
  also the embedding of the stored lower-cased text. In every later search the scored
  result of the new entry carries the lower-cased text and the score of the stored
  embedding; every search returns only scored results of stored entries, and a search
  whose limit exceeds the number of earlier entries returns the result of the new entry.
\<close>

theorem addProblem_stores_lowercased_text:
  "problems (addProblem toLowerCase db p sol cat) =
     problems db @ [\<lparr>entryProblem = toLowerCase p, entrySolution = sol, entryCategory = cat,
                     embedding = generateMockEmbedding toLowerCase p\<rparr>]
   \<and> (toLowerCase (toLowerCase p) = toLowerCase p \<longrightarrow>
        generateMockEmbedding toLowerCase p = generateMockEmbedding toLowerCase (toLowerCase p))
   \<and> results toLowerCase (addProblem toLowerCase db p sol cat) query =
       results toLowerCase db query @
         [\<lparr>problem = toLowerCase p, solution = sol,
           similarity = calculateSimilarity (generateMockEmbedding toLowerCase query)
                          (generateMockEmbedding toLowerCase p),
           category = cat, source = str ''knowledge_base''\<rparr>]
   \<and> set (fst (searchSimilarProblems toLowerCase (addProblem toLowerCase db p sol cat)
                  query limit))
       \<subseteq> set (results toLowerCase (addProblem toLowerCase db p sol cat) query)
   \<and> (int (length (problems db)) < limit \<longrightarrow>
        \<lparr>problem = toLowerCase p, solution = sol,
         similarity = calculateSimilarity (generateMockEmbedding toLowerCase query)
                        (generateMockEmbedding toLowerCase p),
         category = cat, source = str ''knowledge_base''\<rparr>
        \<in> set (fst (searchSimilarProblems toLowerCase (addProblem toLowerCase db p sol cat)
                       query limit)))"
proof (intro conjI impI)
  show "problems (addProblem toLowerCase db p sol cat) =
     problems db @ [\<lparr>entryProblem = toLowerCase p, entrySolution = sol, entryCategory = cat,
                     embedding = generateMockEmbedding toLowerCase p\<rparr>]"
    by (simp add: addProblem_def)
  show "results toLowerCase (addProblem toLowerCase db p sol cat) query =
       results toLowerCase db query @
         [\<lparr>problem = toLowerCase p, solution = sol,
           similarity = calculateSimilarity (generateMockEmbedding toLowerCase query)
                          (generateMockEmbedding toLowerCase p),
           category = cat, source = str ''knowledge_base''\<rparr>]"
    by (rule results_addProblem)
  show "set (fst (searchSimilarProblems toLowerCase (addProblem toLowerCase db p sol cat)
                    query limit))
       \<subseteq> set (results toLowerCase (addProblem toLowerCase db p sol cat) query)"
    by (rule set_search_subset)
next
  assume "toLowerCase (toLowerCase p) = toLowerCase p"
  then show "generateMockEmbedding toLowerCase p
             = generateMockEmbedding toLowerCase (toLowerCase p)"
    by (simp add: generateMockEmbedding_toLowerCase)
next
  assume "int (length (problems db)) < limit"
  then have "int (length (problems (addProblem toLowerCase db p sol cat))) \<le> limit"
    by (simp add: addProblem_def)
  then have "set (fst (searchSimilarProblems toLowerCase (addProblem toLowerCase db p sol cat)
                         query limit))
             = set (results toLowerCase (addProblem toLowerCase db p sol cat) query)"
    by (rule set_search_all)
  then show "\<lparr>problem = toLowerCase p, solution = sol,
         similarity = calculateSimilarity (generateMockEmbedding toLowerCase query)
                        (generateMockEmbedding toLowerCase p),
         category = cat, source = str ''knowledge_base''\<rparr>
        \<in> set (fst (searchSimilarProblems toLowerCase (addProblem toLowerCase db p sol cat)
                       query limit))"
    by (simp add: results_addProblem)
qed

text \<open>
  The text \<open>ecole\<close>, whose first letter is outside ASCII, added to the seeded store: the
  stored text is its lower-cased form, which differs from the text given, and a search
  with limit 5 returns the new entry with the lower-cased text.
\<close>

theorem addProblem_stores_lowercased_text_witness:
  "latin1LowerCase (latin1LowerCase ecole) = latin1LowerCase ecole
   \<and> latin1LowerCase ecole = [233, 99, 111, 108, 101]
   \<and> latin1LowerCase ecole \<noteq> ecole
   \<and> generateMockEmbedding latin1LowerCase ecole
       = generateMockEmbedding latin1LowerCase [233, 99, 111, 108, 101]
   \<and> int (length (problems (initializeSampleData latin1LowerCase))) < 5
   \<and> \<lparr>problem = [233, 99, 111, 108, 101], solution = answerOne,
       similarity = calculateSimilarity (generateMockEmbedding latin1LowerCase (str ''school''))
                      (generateMockEmbedding latin1LowerCase ecole),
       category = str ''french'', source = str ''knowledge_base''\<rparr>
      \<in> set (fst (searchSimilarProblems latin1LowerCase
                (addProblem latin1LowerCase (initializeSampleData latin1LowerCase) ecole
                   answerOne (str ''french''))
                (str ''school'') 5))"
proof -
  have len: "int (length (problems (initializeSampleData latin1LowerCase))) < 5"
    by (simp add: initializeSampleData_def)
  have ne: "latin1LowerCase ecole \<noteq> ecole"
    by (simp add: latin1LowerCase_ecole) (simp add: ecole_def)
  note t = addProblem_stores_lowercased_text
      [of latin1LowerCase "initializeSampleData latin1LowerCase" ecole answerOne
          "str ''french''" "str ''school''" 5]
  from t latin1LowerCase_ecole_idem
  have emb: "generateMockEmbedding latin1LowerCase ecole
             = generateMockEmbedding latin1LowerCase (latin1LowerCase ecole)"
    by blast
  from t len
  have mem: "\<lparr>problem = latin1LowerCase ecole, solution = answerOne,
       similarity = calculateSimilarity (generateMockEmbedding latin1LowerCase (str ''school''))
                      (generateMockEmbedding latin1LowerCase ecole),
       category = str ''french'', source = str ''knowledge_base''\<rparr>
      \<in> set (fst (searchSimilarProblems latin1LowerCase
                (addProblem latin1LowerCase (initializeSampleData latin1LowerCase) ecole
                   answerOne (str ''french''))
                (str ''school'') 5))"
    by blast
  show ?thesis
    using latin1LowerCase_ecole_idem ne len emb mem
    by (simp only: latin1LowerCase_ecole simp_thms)
qed

section \<open>Properties of the routing agent\<close>

lemma reasons_nonempty: "reasonInappropriate \<noteq> []" "reasonNotMath \<noteq> []"
  by (simp_all add: reasonInappropriate_def reasonNotMath_def str_def)

lemma rejected_reason:
  assumes "\<not> isValid (validateMathematicalContent toLowerCase input)"
  shows "\<exists>msg. reason (validateMathematicalContent toLowerCase input) = Some msg \<and> msg \<noteq> []"
  using assms reasons_nonempty
  by (auto simp: validateMathematicalContent_def split: if_splits)

lemma solveProblem_rejected:
  assumes "\<not> isValid (validateMathematicalContent toLowerCase (reqProblem request))"
    and "reason (validateMathematicalContent toLowerCase (reqProblem request)) = Some msg" "msg \<noteq> []"
  shows "solveProblem toLowerCase e request (db, st) = (Inl (Error msg), db, st)"
  using assms by (simp add: solveProblem_def)

lemma solveProblem_valid:
  assumes "isValid (validateMathematicalContent toLowerCase (reqProblem request))"
  shows "solveProblem toLowerCase e request (db, st) =
     (if routedToKnowledgeBase toLowerCase db (reqProblem request)
      then (Inr (fst (knowledgeBaseAnswer e request
                        (hd (fst (searchSimilarProblems toLowerCase db (reqProblem request) 3)))
                        (submitted e request st))),
            db,
            snd (knowledgeBaseAnswer e request
                   (hd (fst (searchSimilarProblems toLowerCase db (reqProblem request) 3)))
                   (submitted e request st)))
      else (Inr (fst (webSearchAnswer e request (submitted e request st))),
            db,
            snd (webSearchAnswer e request (submitted e request st))))"
  using assms
  by (simp add: solveProblem_def Let_def split_beta routedToKnowledgeBase_def submitted_def
      similarityThreshold_def searchSimilarProblems_def)

lemma map_of_map_set: "map_of (map_set k v m) k = Some v"
  by (induction m) auto

lemma knowledgeBaseAnswer_response:
  "fst (knowledgeBaseAnswer e request bestMatch st) =
     \<lparr>respProblem = reqProblem request,
      respSolution = solution bestMatch,
      respSource = knowledge_base,
      responseTime = int (clock e 4) - int (clock e 0),
      respCategory = Some (category bestMatch),
      problemId = randomUUID e 1\<rparr>"
  by (simp add: knowledgeBaseAnswer_def createMathProblem_def createActivity_def Let_def split_beta)

lemma webSearchAnswer_response:
  "fst (webSearchAnswer e request st) =
     \<lparr>respProblem = reqProblem request,
      respSolution = generateSolutionFromSearch (reqProblem request) mockResults,
      respSource = web_search,
      responseTime = int (clock e 4) - int (clock e 0),
      respCategory = Some (str ''advanced''),
      problemId = randomUUID e 1\<rparr>"
  by (simp add: webSearchAnswer_def createMathProblem_def createActivity_def Let_def split_beta
      searchMathematicalContent_def)

lemma knowledgeBaseAnswer_record:
  "\<exists>record. map_of (mathProblems (snd (knowledgeBaseAnswer e request bestMatch st))) (randomUUID e 1)
             = Some record
     \<and> mpSolution record = solution bestMatch \<and> mpSource record = str ''knowledge_base''"
  by (simp add: knowledgeBaseAnswer_def createMathProblem_def createActivity_def Let_def split_beta
      map_of_map_set)

lemma webSearchAnswer_record:
  "\<exists>record. map_of (mathProblems (snd (webSearchAnswer e request st))) (randomUUID e 1)
             = Some record
     \<and> mpSolution record = generateSolutionFromSearch (reqProblem request) mockResults
     \<and> mpSource record = str ''web_search''"
  by (simp add: webSearchAnswer_def createMathProblem_def createActivity_def Let_def split_beta
      map_of_map_set searchMathematicalContent_def)

lemma onePlusOne_valid: "isValid (validateMathematicalContent asciiLowerCase (str ''1+1''))"
  by (simp add: guard_defs)

lemma onePlusOne_tokens: "split_space (asciiLowerCase (str ''1+1'')) = [str ''1+1'']"
  by (simp add: asciiLowerCase_def lowerUnit_def str_def)

lemma onePlusOne_search:
  "fst (searchSimilarProblems asciiLowerCase onePlusOneStore (str ''1+1'') 3)
   = [\<lparr>problem = str ''1+1'', solution = answerTwo, similarity = Finite 1,
       category = str ''arithmetic'', source = str ''knowledge_base''\<rparr>]"
proof -
  have "calculateSimilarity (generateMockEmbedding asciiLowerCase (str ''1+1''))
          (generateMockEmbedding asciiLowerCase (str ''1+1'')) = Finite 1"
    by (rule calculateSimilarity_self)
       (rule single_token_nonzero[of asciiLowerCase "str ''1+1''" "str ''1+1''",
          OF onePlusOne_tokens])
  moreover have "asciiLowerCase (str ''1+1'') = str ''1+1''"
    by (simp add: asciiLowerCase_def lowerUnit_def str_def)
  ultimately have "results asciiLowerCase onePlusOneStore (str ''1+1'')
     = [\<lparr>problem = str ''1+1'', solution = answerTwo, similarity = Finite 1,
         category = str ''arithmetic'', source = str ''knowledge_base''\<rparr>]"
    by (simp add: onePlusOneStore_def results_addProblem results_empty_store)
  then show ?thesis
    by (simp add: search_fst sort_js_def slice0_def)
qed

lemma empty_search: "fst (searchSimilarProblems toLowerCase \<lparr>problems = []\<rparr> query 3) = []"
  by (simp add: search_fst results_empty_store sort_js_def slice0_def)

lemma valid_of_response:
  assumes "solveProblem toLowerCase e request (db, st) = (Inr response, db', st')"
  shows "isValid (validateMathematicalContent toLowerCase (reqProblem request))"
proof (rule ccontr)
  assume inv: "\<not> isValid (validateMathematicalContent toLowerCase (reqProblem request))"
  then obtain msg where "reason (validateMathematicalContent toLowerCase (reqProblem request)) = Some msg"
    "msg \<noteq> []" using rejected_reason by blast
  then have "solveProblem toLowerCase e request (db, st) = (Inl (Error msg), db, st)"
    using inv by (intro solveProblem_rejected)
  with assms show False by simp
qed

lemma hd_search_from_store:
  assumes "fst (searchSimilarProblems toLowerCase db query limit) \<noteq> []"
  shows "\<exists>p\<in>set (problems db).
           solution (hd (fst (searchSimilarProblems toLowerCase db query limit))) = entrySolution p
         \<and> category (hd (fst (searchSimilarProblems toLowerCase db query limit))) = entryCategory p"
proof -
  have "hd (fst (searchSimilarProblems toLowerCase db query limit))
        \<in> set (results toLowerCase db query)"
    using assms set_search_subset[of toLowerCase db query limit] by (meson hd_in_set subsetD)
  then show ?thesis
    by (auto simp: results_def scoreProblem_def Let_def)
qed

text \<open>
  C1. Once the guard has accepted the request, \<open>solveProblem\<close> returns a response and
  does not fail. The response comes from the knowledge base exactly when the search for
  the three most similar problems returns a non-empty sequence whose first score is
  greater than 0.7; in every other case (no results, or a first score that is not
  greater than 0.7) it comes from the web-search fallback. The vector database is left
  as it was.
\<close>

theorem routing_decision:
  assumes "isValid (validateMathematicalContent toLowerCase (reqProblem request))"
  shows "\<exists>response st'.
     solveProblem toLowerCase e request (db, st) = (Inr response, db, st')
     \<and> (respSource response = knowledge_base \<longleftrightarrow>
          fst (searchSimilarProblems toLowerCase db (reqProblem request) 3) \<noteq> []
          \<and> js_gt (similarity (hd (fst (searchSimilarProblems toLowerCase db (reqProblem request) 3)))) (7 / 10))
     \<and> (respSource response = web_search \<longleftrightarrow>
          fst (searchSimilarProblems toLowerCase db (reqProblem request) 3) = []
          \<or> \<not> js_gt (similarity (hd (fst (searchSimilarProblems toLowerCase db (reqProblem request) 3)))) (7 / 10))
     \<and> respSolution response =
         (if fst (searchSimilarProblems toLowerCase db (reqProblem request) 3) \<noteq> []
             \<and> js_gt (similarity (hd (fst (searchSimilarProblems toLowerCase db (reqProblem request) 3)))) (7 / 10)
          then solution (hd (fst (searchSimilarProblems toLowerCase db (reqProblem request) 3)))
          else generateSolutionFromSearch (reqProblem request)
                 (searchMathematicalContent (reqProblem request)))"
proof (cases "routedToKnowledgeBase toLowerCase db (reqProblem request)")
  case True
  then show ?thesis
    using solveProblem_valid[OF assms, of e db st]
    by (simp add: knowledgeBaseAnswer_response routedToKnowledgeBase_def)
next
  case False
  then show ?thesis
    using solveProblem_valid[OF assms, of e db st]
    by (auto simp: webSearchAnswer_response routedToKnowledgeBase_def searchMathematicalContent_def)
qed

theorem routing_decision_witness:
  "isValid (validateMathematicalContent asciiLowerCase (reqProblem onePlusOne))
   \<and> (\<exists>response st'.
         solveProblem asciiLowerCase sampleEnv onePlusOne (onePlusOneStore, emptyStorage)
           = (Inr response, onePlusOneStore, st')
         \<and> respSource response = knowledge_base
         \<and> respSolution response = answerTwo)
   \<and> (\<exists>response st'.
         solveProblem asciiLowerCase sampleEnv onePlusOne (\<lparr>problems = []\<rparr>, emptyStorage)
           = (Inr response, \<lparr>problems = []\<rparr>, st')
         \<and> respSource response = web_search
         \<and> respSolution response = generateSolutionFromSearch (str ''1+1'') mockResults)"
proof -
  have v: "isValid (validateMathematicalContent asciiLowerCase (reqProblem onePlusOne))"
    by (simp add: onePlusOne_def onePlusOne_valid)
  have q: "reqProblem onePlusOne = str ''1+1''" by (simp add: onePlusOne_def)
  have hit: "\<exists>response st'.
         solveProblem asciiLowerCase sampleEnv onePlusOne (onePlusOneStore, emptyStorage)
           = (Inr response, onePlusOneStore, st')
         \<and> respSource response = knowledge_base
         \<and> respSolution response = answerTwo"
    using routing_decision[OF v, of sampleEnv onePlusOneStore emptyStorage]
    by (auto simp: q onePlusOne_search)
  have miss: "\<exists>response st'.
         solveProblem asciiLowerCase sampleEnv onePlusOne (\<lparr>problems = []\<rparr>, emptyStorage)
           = (Inr response, \<lparr>problems = []\<rparr>, st')
         \<and> respSource response = web_search
         \<and> respSolution response = generateSolutionFromSearch (str ''1+1'') mockResults"
    using routing_decision[OF v, of sampleEnv "\<lparr>problems = []\<rparr>" emptyStorage]
    by (auto simp: q empty_search searchMathematicalContent_def)
  from v hit miss show ?thesis by blast
qed

text \<open>
  C2. In every response that \<open>solveProblem\<close> returns, the source tag is
  \<open>knowledge_base\<close> exactly when the routing condition held, and then the solution and
  the category are those of a stored problem (the best match); it is \<open>web_search\<close>
  otherwise, and then the solution is the one synthesised from the web search results.
  The problem record persisted under the returned identifier carries the same solution
  and the same source.
\<close>

theorem source_tag_accurate:
  assumes "solveProblem toLowerCase e request (db, st) = (Inr response, db', st')"
  shows "(respSource response = knowledge_base \<longleftrightarrow>
            fst (searchSimilarProblems toLowerCase db (reqProblem request) 3) \<noteq> []
            \<and> js_gt (similarity (hd (fst (searchSimilarProblems toLowerCase db (reqProblem request) 3)))) (7 / 10))
       \<and> (respSource response = knowledge_base \<longrightarrow>
            respSolution response
              = solution (hd (fst (searchSimilarProblems toLowerCase db (reqProblem request) 3)))
            \<and> (\<exists>p\<in>set (problems db). respSolution response = entrySolution p
                                      \<and> respCategory response = Some (entryCategory p)))
       \<and> (respSource response = web_search \<longrightarrow>
            respSolution response
              = generateSolutionFromSearch (reqProblem request)
                  (searchMathematicalContent (reqProblem request))
            \<and> respCategory response = Some (str ''advanced''))
       \<and> (\<exists>record. map_of (mathProblems st') (problemId response) = Some record
             \<and> mpSolution record = respSolution response
             \<and> mpSource record = (case respSource response of
                                     knowledge_base \<Rightarrow> str ''knowledge_base''
                                   | web_search \<Rightarrow> str ''web_search''))"
proof -
  have v: "isValid (validateMathematicalContent toLowerCase (reqProblem request))"
    using assms by (rule valid_of_response)
  let ?sp = "fst (searchSimilarProblems toLowerCase db (reqProblem request) 3)"
  let ?st0 = "submitted e request st"
  show ?thesis
  proof (cases "routedToKnowledgeBase toLowerCase db (reqProblem request)")
    case True
    then have ne: "?sp \<noteq> []" by (simp add: routedToKnowledgeBase_def)
    have r: "response = fst (knowledgeBaseAnswer e request (hd ?sp) ?st0)"
      and s: "st' = snd (knowledgeBaseAnswer e request (hd ?sp) ?st0)"
      using assms True by (auto simp: solveProblem_valid[OF v])
    have tag: "respSource response = knowledge_base"
      and sol: "respSolution response = solution (hd ?sp)"
      and cat: "respCategory response = Some (category (hd ?sp))"
      and pid: "problemId response = randomUUID e 1"
      by (simp_all add: r knowledgeBaseAnswer_response)
    have store: "\<exists>p\<in>set (problems db). respSolution response = entrySolution p
                                      \<and> respCategory response = Some (entryCategory p)"
      using hd_search_from_store[OF ne] sol cat by auto
    have stored: "\<exists>record. map_of (mathProblems st') (problemId response) = Some record
             \<and> mpSolution record = respSolution response
             \<and> mpSource record = str ''knowledge_base''"
      using knowledgeBaseAnswer_record[of e request "hd ?sp" ?st0] by (simp add: s pid sol)
    from True tag sol store stored show ?thesis
      by (simp add: routedToKnowledgeBase_def)
  next
    case False
    have r: "response = fst (webSearchAnswer e request ?st0)"
      and s: "st' = snd (webSearchAnswer e request ?st0)"
      using assms False by (auto simp: solveProblem_valid[OF v])
    have tag: "respSource response = web_search"
      and sol: "respSolution response = generateSolutionFromSearch (reqProblem request)
                  (searchMathematicalContent (reqProblem request))"
      and cat: "respCategory response = Some (str ''advanced'')"
      and pid: "problemId response = randomUUID e 1"
      by (simp_all add: r webSearchAnswer_response searchMathematicalContent_def)
    have stored: "\<exists>record. map_of (mathProblems st') (problemId response) = Some record
             \<and> mpSolution record = respSolution response
             \<and> mpSource record = str ''web_search''"
      using webSearchAnswer_record[of e request ?st0]
      by (simp add: s pid sol searchMathematicalContent_def)
    from False tag sol cat stored show ?thesis
      by (simp add: routedToKnowledgeBase_def)
  qed
qed

lemma solveProblem_onePlusOne_hit:
  "solveProblem asciiLowerCase sampleEnv onePlusOne (onePlusOneStore, emptyStorage)
   = (Inr \<lparr>respProblem = str ''1+1'', respSolution = answerTwo, respSource = knowledge_base,
           responseTime = 4, respCategory = Some (str ''arithmetic''),
           problemId = str ''1''\<rparr>,
      onePlusOneStore,
      snd (snd (solveProblem asciiLowerCase sampleEnv onePlusOne (onePlusOneStore, emptyStorage))))"
proof -
  have v: "isValid (validateMathematicalContent asciiLowerCase (reqProblem onePlusOne))"
    by (simp add: onePlusOne_def onePlusOne_valid)
  have q: "reqProblem onePlusOne = str ''1+1''" by (simp add: onePlusOne_def)
  have hit: "routedToKnowledgeBase asciiLowerCase onePlusOneStore (str ''1+1'')"
    by (simp add: routedToKnowledgeBase_def onePlusOne_search)
  have id1: "randomUUID sampleEnv (Suc 0) = str ''1''"
    by (simp add: sampleEnv_def str_def)
  have time: "int (clock sampleEnv 4) - int (clock sampleEnv 0) = 4"
    by (simp add: sampleEnv_def)
  show ?thesis
    using hit
    by (simp add: solveProblem_valid[OF v] q knowledgeBaseAnswer_response onePlusOne_search
        id1 time)
qed

lemma solveProblem_onePlusOne_miss:
  "solveProblem asciiLowerCase sampleEnv onePlusOne (\<lparr>problems = []\<rparr>, emptyStorage)
   = (Inr \<lparr>respProblem = str ''1+1'',
           respSolution = generateSolutionFromSearch (str ''1+1'') mockResults,
           respSource = web_search,
           responseTime = 4, respCategory = Some (str ''advanced''),
           problemId = str ''1''\<rparr>,
      \<lparr>problems = []\<rparr>,
      snd (snd (solveProblem asciiLowerCase sampleEnv onePlusOne (\<lparr>problems = []\<rparr>, emptyStorage))))"
proof -
  have v: "isValid (validateMathematicalContent asciiLowerCase (reqProblem onePlusOne))"
    by (simp add: onePlusOne_def onePlusOne_valid)
  have q: "reqProblem onePlusOne = str ''1+1''" by (simp add: onePlusOne_def)
  have miss: "\<not> routedToKnowledgeBase asciiLowerCase \<lparr>problems = []\<rparr> (str ''1+1'')"
    by (simp add: routedToKnowledgeBase_def empty_search)
  have id1: "randomUUID sampleEnv (Suc 0) = str ''1''"
    by (simp add: sampleEnv_def str_def)
  have time: "int (clock sampleEnv 4) - int (clock sampleEnv 0) = 4"
    by (simp add: sampleEnv_def)
  show ?thesis
    using miss
    by (simp add: solveProblem_valid[OF v] q webSearchAnswer_response id1 time)
qed

theorem source_tag_accurate_witness:
  "solveProblem asciiLowerCase sampleEnv onePlusOne (onePlusOneStore, emptyStorage)
   = (Inr \<lparr>respProblem = str ''1+1'', respSolution = answerTwo, respSource = knowledge_base,
           responseTime = 4, respCategory = Some (str ''arithmetic''),
           problemId = str ''1''\<rparr>,
      onePlusOneStore,
      snd (snd (solveProblem asciiLowerCase sampleEnv onePlusOne (onePlusOneStore, emptyStorage))))
   \<and> (\<exists>p\<in>set (problems onePlusOneStore). answerTwo = entrySolution p)
   \<and> (\<exists>record. map_of (mathProblems (snd (snd (solveProblem asciiLowerCase sampleEnv onePlusOne
                                              (onePlusOneStore, emptyStorage))))) (str ''1'')
                 = Some record
         \<and> mpSolution record = answerTwo \<and> mpSource record = str ''knowledge_base'')
   \<and> solveProblem asciiLowerCase sampleEnv onePlusOne (\<lparr>problems = []\<rparr>, emptyStorage)
     = (Inr \<lparr>respProblem = str ''1+1'',
             respSolution = generateSolutionFromSearch (str ''1+1'') mockResults,
             respSource = web_search,
             responseTime = 4, respCategory = Some (str ''advanced''),
             problemId = str ''1''\<rparr>,
        \<lparr>problems = []\<rparr>,
        snd (snd (solveProblem asciiLowerCase sampleEnv onePlusOne (\<lparr>problems = []\<rparr>, emptyStorage))))
   \<and> (\<exists>record. map_of (mathProblems (snd (snd (solveProblem asciiLowerCase sampleEnv onePlusOne
                                              (\<lparr>problems = []\<rparr>, emptyStorage))))) (str ''1'')
                 = Some record
         \<and> mpSolution record = generateSolutionFromSearch (str ''1+1'') mockResults
         \<and> mpSource record = str ''web_search'')"
proof -
  note hit = source_tag_accurate[OF solveProblem_onePlusOne_hit]
  note miss = source_tag_accurate[OF solveProblem_onePlusOne_miss]
  have a: "\<exists>p\<in>set (problems onePlusOneStore). answerTwo = entrySolution p"
    using hit by auto
  have b: "\<exists>record. map_of (mathProblems (snd (snd (solveProblem asciiLowerCase sampleEnv onePlusOne
                                              (onePlusOneStore, emptyStorage))))) (str ''1'')
                 = Some record
         \<and> mpSolution record = answerTwo \<and> mpSource record = str ''knowledge_base''"
    using hit by simp
  have c: "\<exists>record. map_of (mathProblems (snd (snd (solveProblem asciiLowerCase sampleEnv onePlusOne
                                              (\<lparr>problems = []\<rparr>, emptyStorage))))) (str ''1'')
                 = Some record
         \<and> mpSolution record = generateSolutionFromSearch (str ''1+1'') mockResults
         \<and> mpSource record = str ''web_search''"
    using miss by (auto simp: onePlusOne_def searchMathematicalContent_def)
  from a b c solveProblem_onePlusOne_hit solveProblem_onePlusOne_miss show ?thesis
    by (intro conjI)
qed

text \<open>
  C6. \<open>solveProblem\<close> throws the guard's reason exactly when the guard rejects the
  request: then the vector database and the storage are as they were before the call
  (no activity and no problem record is written, no search is made). When the guard
  accepts, a response is returned.
\<close>

theorem validation_error_before_any_effect:
  "(\<not> isValid (validateMathematicalContent toLowerCase (reqProblem request)) \<longrightarrow>
      (\<exists>msg. reason (validateMathematicalContent toLowerCase (reqProblem request)) = Some msg
             \<and> solveProblem toLowerCase e request (db, st) = (Inl (Error msg), db, st)))
   \<and> (isValid (validateMathematicalContent toLowerCase (reqProblem request)) \<longrightarrow>
      (\<exists>response st'. solveProblem toLowerCase e request (db, st) = (Inr response, db, st')))"
proof (intro conjI impI)
  assume inv: "\<not> isValid (validateMathematicalContent toLowerCase (reqProblem request))"
  then obtain msg where m: "reason (validateMathematicalContent toLowerCase (reqProblem request)) = Some msg"
    "msg \<noteq> []" using rejected_reason by blast
  then have "solveProblem toLowerCase e request (db, st) = (Inl (Error msg), db, st)"
    using inv by (intro solveProblem_rejected)
  with m(1) show "\<exists>msg. reason (validateMathematicalContent toLowerCase (reqProblem request)) = Some msg
             \<and> solveProblem toLowerCase e request (db, st) = (Inl (Error msg), db, st)" by blast
next
  assume v: "isValid (validateMathematicalContent toLowerCase (reqProblem request))"
  show "\<exists>response st'. solveProblem toLowerCase e request (db, st) = (Inr response, db, st')"
    by (simp add: solveProblem_valid[OF v])
qed

theorem validation_error_before_any_effect_witness:
  "\<not> isValid (validateMathematicalContent asciiLowerCase (reqProblem helloThere))
   \<and> solveProblem asciiLowerCase sampleEnv helloThere
         (initializeSampleData asciiLowerCase, emptyStorage)
       = (Inl (Error reasonNotMath), initializeSampleData asciiLowerCase, emptyStorage)
   \<and> isValid (validateMathematicalContent asciiLowerCase (reqProblem onePlusOne))
   \<and> (\<exists>response st'.
          solveProblem asciiLowerCase sampleEnv onePlusOne
            (initializeSampleData asciiLowerCase, emptyStorage)
          = (Inr response, initializeSampleData asciiLowerCase, st'))"
proof -
  have r: "validateMathematicalContent asciiLowerCase (reqProblem helloThere)
           = \<lparr>isValid = False, reason = Some reasonNotMath\<rparr>"
    by (simp add: helloThere_def guard_rejects_hello)
  have v: "isValid (validateMathematicalContent asciiLowerCase (reqProblem onePlusOne))"
    by (simp add: onePlusOne_def onePlusOne_valid)
  show ?thesis
    using validation_error_before_any_effect
            [of asciiLowerCase helloThere sampleEnv "initializeSampleData asciiLowerCase"
                emptyStorage]
          validation_error_before_any_effect
            [of asciiLowerCase onePlusOne sampleEnv "initializeSampleData asciiLowerCase"
                emptyStorage]
          r v
    by simp
qed

text \<open>
  The second version differs on the points of C2 and C6: every response it returns is
  tagged \<open>knowledge_base\<close>, and whether it returns depends on the solver alone, not on
  the guard.
\<close>

lemma solver_version_constant_tag:
  assumes "fst (solveProblem_solver toLowerCase python e request st) = Inr response"
  shows "respSource response = knowledge_base"
  using assms
  by (auto simp: solveProblem_solver_def Let_def split_beta split: sum.splits error.splits)

lemma solver_version_ignores_guard:
  assumes "python (reqProblem request) = Inr sol"
  shows "\<exists>response. fst (solveProblem_solver toLowerCase python e request st) = Inr response"
  using assms
  by (simp add: solveProblem_solver_def callPythonSolver_def Let_def split_beta)

end
